theory Spec2Isabelle
  imports Complex_Main
begin

section \<open>Python values\<close>

text \<open>
  The daemon (\<^verbatim>\<open>pantalaimon/daemon.py\<close>) works on the values \<^verbatim>\<open>json.loads\<close> produces:
  \<^verbatim>\<open>None\<close>, booleans, integers, floats, strings, lists and dictionaries. A dictionary is an
  association list in insertion order. Keys are the hashable scalars: JSON objects have
  string keys only, but \<^verbatim>\<open>dict(x)\<close> of a list of pairs can produce others. A float is kept
  as the real number it denotes (only its being zero is ever tested). A string is a list of
  characters.
\<close>

datatype pykey = KNone | KBool bool | KInt int | KFloat real | KStr string

datatype pyval =
    PNone
  | PBool bool
  | PInt int
  | PFloat real
  | PStr string
  | PList "pyval list"
  | PDict "(pykey \<times> pyval) list"

type_synonym pydict = "(pykey \<times> pyval) list"

text \<open>Every exception the modelled code can raise or catch.\<close>

datatype exn =
    AttributeError
  | TypeError
  | ValueError
  | KeyError
  | JSONDecodeError
  | ContentTypeError
  | UnicodeDecodeError
  | ClientConnectionError string
  | SendRetryError string
  | EncryptionError string
  | OSError string
  | OtherError string

text \<open>Truthiness, as \<^verbatim>\<open>if x:\<close> tests it.\<close>

fun truthy :: "pyval \<Rightarrow> bool" where
  "truthy PNone = False"
| "truthy (PBool b) = b"
| "truthy (PInt i) = (i \<noteq> 0)"
| "truthy (PFloat r) = (r \<noteq> 0)"
| "truthy (PStr s) = (s \<noteq> [])"
| "truthy (PList xs) = (xs \<noteq> [])"
| "truthy (PDict d) = (d \<noteq> [])"

text \<open>
  Key equality is Python's \<^verbatim>\<open>==\<close>: numbers and booleans compare by value
  (\<^verbatim>\<open>True == 1 == 1.0\<close>), everything else by type and content.
\<close>

fun key_num :: "pykey \<Rightarrow> real option" where
  "key_num (KBool b) = Some (if b then 1 else 0)"
| "key_num (KInt i) = Some (of_int i)"
| "key_num (KFloat r) = Some r"
| "key_num _ = None"

definition key_eq :: "pykey \<Rightarrow> pykey \<Rightarrow> bool" where
  "key_eq a b =
     (case (key_num a, key_num b) of
        (Some x, Some y) \<Rightarrow> x = y
      | (None, None) \<Rightarrow> a = b
      | _ \<Rightarrow> False)"

text \<open>\<^verbatim>\<open>d[k] = v\<close>: the first equal key keeps its place and its spelling; a new key goes last.\<close>

fun dict_set :: "pydict \<Rightarrow> pykey \<Rightarrow> pyval \<Rightarrow> pydict" where
  "dict_set [] k v = [(k, v)]"
| "dict_set ((k', v') # d) k v =
     (if key_eq k' k then (k', v) # d else (k', v') # dict_set d k v)"

text \<open>Lookup of a string key: \<^verbatim>\<open>d.get(k)\<close> as an option, and \<^verbatim>\<open>k in d\<close>.\<close>

definition dict_lookup :: "pydict \<Rightarrow> string \<Rightarrow> pyval option" where
  "dict_lookup d k = map_of d (KStr k)"

text \<open>
  \<^verbatim>\<open>x.get(k, None)\<close>: only a dictionary has \<^verbatim>\<open>get\<close>; a missing key and a key bound to
  \<^verbatim>\<open>None\<close> both give \<^verbatim>\<open>None\<close>.
\<close>

definition py_get :: "pyval \<Rightarrow> string \<Rightarrow> exn + pyval" where
  "py_get x k =
     (case x of
        PDict d \<Rightarrow> Inr (case dict_lookup d k of None \<Rightarrow> PNone | Some v \<Rightarrow> v)
      | _ \<Rightarrow> Inl AttributeError)"

text \<open>
  \<^verbatim>\<open>dict(x)\<close>: a dictionary is copied; any other iterable must yield items that are
  themselves sequences of exactly two elements, the first of them hashable.
\<close>

fun hashable_key :: "pyval \<Rightarrow> pykey option" where
  "hashable_key PNone = Some KNone"
| "hashable_key (PBool b) = Some (KBool b)"
| "hashable_key (PInt i) = Some (KInt i)"
| "hashable_key (PFloat r) = Some (KFloat r)"
| "hashable_key (PStr s) = Some (KStr s)"
| "hashable_key (PList xs) = None"
| "hashable_key (PDict d) = None"

fun key_val :: "pykey \<Rightarrow> pyval" where
  "key_val KNone = PNone"
| "key_val (KBool b) = PBool b"
| "key_val (KInt i) = PInt i"
| "key_val (KFloat r) = PFloat r"
| "key_val (KStr s) = PStr s"

fun pair_of_item :: "pyval \<Rightarrow> exn + (pykey \<times> pyval)" where
  "pair_of_item (PStr s) =
     (case s of [a, b] \<Rightarrow> Inr (KStr [a], PStr [b]) | _ \<Rightarrow> Inl ValueError)"
| "pair_of_item (PList xs) =
     (case xs of
        [k, v] \<Rightarrow> (case hashable_key k of None \<Rightarrow> Inl TypeError | Some k' \<Rightarrow> Inr (k', v))
      | _ \<Rightarrow> Inl ValueError)"
| "pair_of_item (PDict d) =
     (case d of [(k1, v1), (k2, v2)] \<Rightarrow> Inr (k1, key_val k2) | _ \<Rightarrow> Inl ValueError)"
| "pair_of_item _ = Inl TypeError"

fun dict_of_items :: "pydict \<Rightarrow> pyval list \<Rightarrow> exn + pydict" where
  "dict_of_items d [] = Inr d"
| "dict_of_items d (x # xs) =
     (case pair_of_item x of
        Inl e \<Rightarrow> Inl e
      | Inr (k, v) \<Rightarrow> dict_of_items (dict_set d k v) xs)"

fun py_dict :: "pyval \<Rightarrow> exn + pydict" where
  "py_dict (PDict d) = Inr d"
| "py_dict (PList xs) = dict_of_items [] xs"
| "py_dict (PStr s) = dict_of_items [] (map (\<lambda>c. PStr [c]) s)"
| "py_dict _ = Inl TypeError"

section \<open>The filter sanitizer\<close>

text \<open>
  \<^verbatim>\<open>ProxyDaemon.sanitize_filter\<close> copies the top-level dictionary and then changes the
  lists nested in it in place. The model returns the value the returned dictionary has
  when the function returns. The filters it is called on come from \<^verbatim>\<open>json.loads\<close>, so
  they are trees: no list is reachable twice.
\<close>

definition encrypted_type :: string where
  "encrypted_type = ''m.room.encrypted''"

text \<open>\<^verbatim>\<open>sub in s\<close> for two strings.\<close>

fun str_contains :: "string \<Rightarrow> string \<Rightarrow> bool" where
  "str_contains [] sub = (sub = [])"
| "str_contains (c # cs) sub = (take (length sub) (c # cs) = sub \<or> str_contains cs sub)"

text \<open>
  \<^verbatim>\<open>if types_filter: if "m.room.encrypted" not in types_filter: types_filter.append(...)\<close>.
  The result is the value of \<^verbatim>\<open>types_filter\<close> afterwards. \<^verbatim>\<open>in\<close> is membership for a
  list, key membership for a dictionary, substring for a string and a \<^verbatim>\<open>TypeError\<close>
  for a number or \<^verbatim>\<open>True\<close>; only a list has \<^verbatim>\<open>append\<close>.
\<close>

definition add_encrypted :: "pyval \<Rightarrow> exn + pyval" where
  "add_encrypted types_filter =
     (if \<not> truthy types_filter then Inr types_filter
      else case types_filter of
        PList xs \<Rightarrow>
          Inr (if PStr encrypted_type \<in> set xs then PList xs
               else PList (xs @ [PStr encrypted_type]))
      | PDict d \<Rightarrow>
          (if dict_lookup d encrypted_type \<noteq> None then Inr types_filter
           else Inl AttributeError)
      | PStr s \<Rightarrow>
          (if str_contains s encrypted_type then Inr types_filter else Inl AttributeError)
      | _ \<Rightarrow> Inl TypeError)"

text \<open>
  \<^verbatim>\<open>if not_types_filter: try: not_types_filter.remove("m.room.encrypted") except ValueError: pass\<close>.
  \<^verbatim>\<open>list.remove\<close> takes out the first equal element; only a list has \<^verbatim>\<open>remove\<close>.
\<close>

definition drop_encrypted :: "pyval \<Rightarrow> exn + pyval" where
  "drop_encrypted not_types_filter =
     (if \<not> truthy not_types_filter then Inr not_types_filter
      else case not_types_filter of
        PList xs \<Rightarrow> Inr (PList (remove1 (PStr encrypted_type) xs))
      | _ \<Rightarrow> Inl AttributeError)"

text \<open>
  The body under \<^verbatim>\<open>if timeline_filter:\<close>, as the value of the timeline dictionary
  afterwards. An entry is rewritten only where the code changed the list it holds.
\<close>

definition sanitize_timeline :: "pyval \<Rightarrow> exn + pyval" where
  "sanitize_timeline timeline_filter =
     (case py_get timeline_filter ''types'' of
        Inl e \<Rightarrow> Inl e
      | Inr types_filter \<Rightarrow>
          (case add_encrypted types_filter of
             Inl e \<Rightarrow> Inl e
           | Inr types' \<Rightarrow>
               (case py_get timeline_filter ''not_types'' of
                  Inl e \<Rightarrow> Inl e
                | Inr not_types_filter \<Rightarrow>
                    (case drop_encrypted not_types_filter of
                       Inl e \<Rightarrow> Inl e
                     | Inr not_types' \<Rightarrow>
                         (case timeline_filter of
                            PDict t \<Rightarrow>
                              (let t1 = (if truthy types_filter
                                         then dict_set t (KStr ''types'') types' else t);
                                   t2 = (if truthy not_types_filter
                                         then dict_set t1 (KStr ''not_types'') not_types' else t1)
                               in Inr (PDict t2))
                          | _ \<Rightarrow> Inl AttributeError)))))"

text \<open>The body under \<^verbatim>\<open>if room_filter:\<close>, as the value of the room dictionary afterwards.\<close>

definition sanitize_room :: "pyval \<Rightarrow> exn + pyval" where
  "sanitize_room room_filter =
     (case py_get room_filter ''timeline'' of
        Inl e \<Rightarrow> Inl e
      | Inr timeline_filter \<Rightarrow>
          (if \<not> truthy timeline_filter then Inr room_filter
           else case sanitize_timeline timeline_filter of
             Inl e \<Rightarrow> Inl e
           | Inr timeline' \<Rightarrow>
               (case room_filter of
                  PDict r \<Rightarrow> Inr (PDict (dict_set r (KStr ''timeline'') timeline'))
                | _ \<Rightarrow> Inl AttributeError)))"

definition sanitize_filter :: "pyval \<Rightarrow> exn + pyval" where
  "sanitize_filter sync_filter =
     (case py_dict sync_filter of
        Inl e \<Rightarrow> Inl e
      | Inr d \<Rightarrow>
          (let room_filter = (case dict_lookup d ''room'' of None \<Rightarrow> PNone | Some v \<Rightarrow> v)
           in if \<not> truthy room_filter then Inr (PDict d)
              else case sanitize_room room_filter of
                Inl e \<Rightarrow> Inl e
              | Inr room' \<Rightarrow> Inr (PDict (dict_set d (KStr ''room'') room'))))"

text \<open>Reading \<open>F.room.timeline.<field>\<close> off a filter: \<open>None\<close> when the path does not exist.\<close>

definition timeline_field :: "pyval \<Rightarrow> string \<Rightarrow> pyval option" where
  "timeline_field f k =
     (case f of
        PDict d \<Rightarrow>
          (case dict_lookup d ''room'' of
             Some (PDict r) \<Rightarrow>
               (case dict_lookup r ''timeline'' of
                  Some (PDict t) \<Rightarrow> dict_lookup t k
                | _ \<Rightarrow> None)
           | _ \<Rightarrow> None)
      | _ \<Rightarrow> None)"

section \<open>Requests, responses and the daemon's tables\<close>

text \<open>
  aiohttp keeps query parameters and headers in multidicts: lists of name-value entries
  in order, a name possibly repeated. \<^verbatim>\<open>request.query\<close> compares names exactly;
  \<^verbatim>\<open>request.headers\<close> and every \<^verbatim>\<open>CIMultiDict\<close> compare them without regard to case.
  The operations below are the ones the daemon calls, with multidict's meaning:
  \<^verbatim>\<open>get\<close> gives the first value of the name, \<^verbatim>\<open>pop\<close> takes out the first entry of
  the name, \<^verbatim>\<open>d[k] = v\<close> overwrites the first entry of the name and drops its other
  entries, or adds the entry last.
\<close>

type_synonym 'v multidict = "(string \<times> 'v) list"

definition lower_char :: "char \<Rightarrow> char" where
  "lower_char c =
     (let n = (of_char c :: nat) in if 65 \<le> n \<and> n \<le> 90 then char_of (n + 32) else c)"

definition ci_eq :: "string \<Rightarrow> string \<Rightarrow> bool" where
  "ci_eq a b = (map lower_char a = map lower_char b)"

definition md_get :: "'v multidict \<Rightarrow> string \<Rightarrow> 'v option" where
  "md_get d k = map_of d k"

fun ci_get :: "'v multidict \<Rightarrow> string \<Rightarrow> 'v option" where
  "ci_get [] k = None"
| "ci_get ((k', v) # d) k = (if ci_eq k' k then Some v else ci_get d k)"

definition ci_mem :: "'v multidict \<Rightarrow> string \<Rightarrow> bool" where
  "ci_mem d k = (ci_get d k \<noteq> None)"

fun ci_pop :: "'v multidict \<Rightarrow> string \<Rightarrow> 'v multidict" where
  "ci_pop [] k = []"
| "ci_pop ((k', v) # d) k = (if ci_eq k' k then d else (k', v) # ci_pop d k)"

fun ci_set :: "'v multidict \<Rightarrow> string \<Rightarrow> 'v \<Rightarrow> 'v multidict" where
  "ci_set [] k v = [(k, v)]"
| "ci_set ((k', v') # d) k v =
     (if ci_eq k' k then (k, v) # filter (\<lambda>e. \<not> ci_eq (fst e) k) d
      else (k', v') # ci_set d k v)"

text \<open>The entries of one name, in order (used to state what a rewrite leaves alone).\<close>

definition named :: "'v multidict \<Rightarrow> string \<Rightarrow> 'v multidict" where
  "named d k = filter (\<lambda>e. ci_eq (fst e) k) d"

text \<open>
  The downstream request (\<^verbatim>\<open>aiohttp.web.BaseRequest\<close>): the fields the daemon reads.
  The last three are \<^verbatim>\<open>request.match_info\<close> of the send route.
\<close>

record request =
  req_method :: string
  req_path :: string
  req_query :: "string multidict"
  req_headers :: "string multidict"
  req_body :: string
  req_room_id :: string
  req_event_type :: string
  req_txnid :: string

text \<open>
  A value in the outgoing query: a string, or (in \<^verbatim>\<open>sync\<close>) the parsed \<^verbatim>\<open>filter\<close>
  parameter put back as it is when it is JSON but not an object.
\<close>

datatype param = Str string | Parsed pyval

text \<open>The arguments of \<^verbatim>\<open>session.request\<close>; \<^verbatim>\<open>proxy\<close> and \<^verbatim>\<open>ssl\<close> are constants of the daemon.\<close>

record fwd_request =
  fwd_method :: string
  fwd_url :: string
  fwd_data :: string
  fwd_params :: "param multidict"
  fwd_headers :: "string multidict"

text \<open>
  The upstream answer (\<^verbatim>\<open>aiohttp.ClientResponse\<close>, or the SDK's \<^verbatim>\<open>transport_response\<close>).
  \<open>up_json\<close> is what \<^verbatim>\<open>response.json()\<close> returns or raises.
\<close>

record up_response =
  up_status :: int
  up_content_type :: string
  up_body :: string
  up_json :: "exn + pyval"

text \<open>
  The downstream answer (\<^verbatim>\<open>web.Response\<close>). The content type is \<open>None\<close> where the code
  passes \<^verbatim>\<open>text=\<close> and no content type.
\<close>

record response =
  rsp_status :: int
  rsp_content_type :: "string option"
  rsp_body :: string

text \<open>Control messages from the UI and the daemon's answers to them.\<close>

text \<open>
  Modelled from the spec: the message classes of \<^verbatim>\<open>pantalaimon.thread_messages\<close> are not
  among the source files. The spec lists the variants; each carries \<open>message_id\<close> and
  \<open>pan_user\<close>. \<open>OtherMessage\<close> stands for a message of any class \<^verbatim>\<open>receive_message\<close>
  has no branch for.
\<close>

datatype message =
    DeviceVerifyMessage nat string string string
  | DeviceUnverifyMessage nat string string string
  | AcceptSasMessage nat string
  | DeviceConfirmSasMessage nat string
  | ExportKeysMessage nat string string string
  | ImportKeysMessage nat string string string
  | OtherMessage nat string

fun message_id :: "message \<Rightarrow> nat" where
  "message_id (DeviceVerifyMessage m p u dv) = m"
| "message_id (DeviceUnverifyMessage m p u dv) = m"
| "message_id (AcceptSasMessage m p) = m"
| "message_id (DeviceConfirmSasMessage m p) = m"
| "message_id (ExportKeysMessage m p f pw) = m"
| "message_id (ImportKeysMessage m p f pw) = m"
| "message_id (OtherMessage m p) = m"

fun pan_user :: "message \<Rightarrow> string" where
  "pan_user (DeviceVerifyMessage m p u dv) = p"
| "pan_user (DeviceUnverifyMessage m p u dv) = p"
| "pan_user (AcceptSasMessage m p) = p"
| "pan_user (DeviceConfirmSasMessage m p) = p"
| "pan_user (ExportKeysMessage m p f pw) = p"
| "pan_user (ImportKeysMessage m p f pw) = p"
| "pan_user (OtherMessage m p) = p"

record daemon_response =
  dr_message_id :: nat
  dr_pan_user :: string
  dr_code :: string
  dr_message :: string

record device =
  dev_id :: string
  dev_user_id :: string

text \<open>
  The shadow client (\<^verbatim>\<open>PanClient\<close>, built on the SDK): the attributes the daemon reads, and
  each SDK call as the result it gives. A call that can fail returns the exception it
  raises. \<open>pc_device_store\<close> is total in the user, as the SDK's store answers an unknown
  user with an empty table.

  What \<^verbatim>\<open>decrypt_sync_body\<close> and \<^verbatim>\<open>decrypt_messages_body\<close> give depends on the keys the
  client holds, and those arrive with its sync rounds. So the two take, before the body
  and \<^verbatim>\<open>ignore_failures\<close>, the number of sync rounds the client has completed since the
  handler called \<^verbatim>\<open>decrypt_body\<close>.
\<close>

record pan_client =
  pc_user_id :: string
  pc_access_token :: string
  pc_rooms :: "string \<rightharpoonup> bool"
  pc_room_send :: "string \<Rightarrow> string \<Rightarrow> pyval \<Rightarrow> string \<Rightarrow> exn + up_response"
  pc_decrypt_sync_body :: "nat \<Rightarrow> pyval \<Rightarrow> bool \<Rightarrow> exn + pyval"
  pc_decrypt_messages_body :: "nat \<Rightarrow> pyval \<Rightarrow> bool \<Rightarrow> exn + pyval"
  pc_device_store :: "string \<Rightarrow> string \<rightharpoonup> device"
  pc_verify_device :: "device \<Rightarrow> bool"
  pc_unverify_device :: "device \<Rightarrow> bool"
  pc_accept_sas :: "message \<Rightarrow> exn option"
  pc_confirm_sas :: "message \<Rightarrow> exn option"
  pc_export_keys :: "string \<Rightarrow> string \<Rightarrow> exn option"
  pc_import_keys :: "string \<Rightarrow> string \<Rightarrow> exn option"

text \<open>
  Modelled from the spec: \<^verbatim>\<open>ClientInfo\<close> of \<^verbatim>\<open>pantalaimon.store\<close> is not among the source
  files. The spec has it as the binding of an access token to a user id.
\<close>

record client_info_entry =
  ci_user_id :: string
  ci_access_token :: string

text \<open>The tables of \<^verbatim>\<open>ProxyDaemon\<close> the handlers use.\<close>

record daemon =
  homeserver_url :: string
  client_info :: "string \<rightharpoonup> client_info_entry"
  pan_clients :: "string \<rightharpoonup> pan_client"

text \<open>
  What the daemon calls outside itself: \<^verbatim>\<open>request.text()\<close>, which decodes the body and
  raises \<^verbatim>\<open>UnicodeDecodeError\<close> on bytes that are not text; \<^verbatim>\<open>json.loads\<close>, which raises
  \<^verbatim>\<open>JSONDecodeError\<close> on text that is not JSON; \<^verbatim>\<open>json.dumps\<close>; \<^verbatim>\<open>session.request\<close>; the
  SDK login of a new shadow client (\<open>None\<close> when the answer is not a \<^verbatim>\<open>LoginResponse\<close>);
  \<^verbatim>\<open>os.path.abspath(os.path.expanduser(p))\<close>; and the clock of \<^verbatim>\<open>asyncio.wait_for\<close>, as
  the number of times the shadow client's \<open>synced\<close> event fires before
  \<^verbatim>\<open>decryption_timeout\<close> seconds have passed.
\<close>

record env =
  body_text :: "string \<Rightarrow> exn + string"
  json_loads :: "string \<Rightarrow> exn + pyval"
  json_dumps :: "pyval \<Rightarrow> string"
  session_request :: "fwd_request \<Rightarrow> exn + up_response"
  sdk_login :: "pyval \<Rightarrow> pyval \<Rightarrow> pan_client option"
  abspath :: "string \<Rightarrow> string"
  synced_edges :: nat

text \<open>
  What a handler did: the calls that left the proxy, in order, and how it ended, with a
  response or with an exception it did not catch.
\<close>

datatype effect =
    Upstream fwd_request
  | RoomSend string string pyval string

datatype outcome = Reply response | Raise exn

section \<open>Access-token extraction\<close>

text \<open>\<^verbatim>\<open>s.strip(chars)\<close>: drops from both ends every character that is in \<open>chars\<close>.\<close>

definition py_strip :: "string \<Rightarrow> string \<Rightarrow> string" where
  "py_strip s chars =
     rev (dropWhile (\<lambda>c. c \<in> set chars) (rev (dropWhile (\<lambda>c. c \<in> set chars) s)))"

definition get_access_token :: "request \<Rightarrow> string" where
  "get_access_token request =
     (let access_token =
            (case md_get (req_query request) ''access_token'' of None \<Rightarrow> [] | Some t \<Rightarrow> t)
      in if access_token = []
         then py_strip
                (case ci_get (req_headers request) ''Authorization'' of
                   None \<Rightarrow> []
                 | Some h \<Rightarrow> h)
                ''Bearer ''
         else access_token)"

text \<open>
  \<^verbatim>\<open>await request.json()\<close>: aiohttp decodes the body (\<^verbatim>\<open>await self.text()\<close>) and hands
  the text to \<^verbatim>\<open>json.loads\<close>. Either step can raise.
\<close>

definition request_json :: "env \<Rightarrow> request \<Rightarrow> exn + pyval" where
  "request_json e request =
     (case body_text e (req_body request) of
        Inl x \<Rightarrow> Inl x
      | Inr t \<Rightarrow> json_loads e t)"

section \<open>Forwarding\<close>

text \<open>
  \<^verbatim>\<open>forward_request\<close> builds the arguments of \<^verbatim>\<open>session.request\<close> and makes the call.
  \<open>forward_args\<close> is the building part. \<^verbatim>\<open>params or ...\<close>, \<^verbatim>\<open>if token:\<close> and
  \<^verbatim>\<open>if data:\<close> test truthiness: an empty multidict or string counts as not given.
\<close>

definition given :: "string option \<Rightarrow> bool" where
  "given x = (case x of None \<Rightarrow> False | Some s \<Rightarrow> s \<noteq> [])"

definition query_params :: "request \<Rightarrow> param multidict" where
  "query_params request = map (\<lambda>(k, v). (k, Str v)) (req_query request)"

definition forward_args ::
  "string \<Rightarrow> request \<Rightarrow> param multidict option \<Rightarrow> string option \<Rightarrow> string option \<Rightarrow> fwd_request" where
  "forward_args base request params data token =
     (let headers0 = ci_pop (req_headers request) ''Host'';
          params0 = (case params of
                       None \<Rightarrow> query_params request
                     | Some p \<Rightarrow> if p \<noteq> [] then p else query_params request);
          headers1 = (if given token \<and> ci_mem headers0 ''Authorization''
                      then ci_set headers0 ''Authorization'' (''Bearer '' @ the token)
                      else headers0);
          params1 = (if given token \<and> ci_mem params0 ''access_token''
                     then ci_set params0 ''access_token'' (Str (the token))
                     else params0);
          headers2 = (if given data then ci_pop headers1 ''Content-Length'' else headers1)
      in \<lparr> fwd_method = req_method request,
           fwd_url = base @ req_path request,
           fwd_data = (if given data then the data else req_body request),
           fwd_params = params1,
           fwd_headers = headers2 \<rparr>)"

definition forward_request ::
  "env \<Rightarrow> daemon \<Rightarrow> request \<Rightarrow> param multidict option \<Rightarrow> string option \<Rightarrow> string option
     \<Rightarrow> fwd_request \<times> (exn + up_response)" where
  "forward_request e d request params data token =
     (let f = forward_args (homeserver_url d) request params data token
      in (f, session_request e f))"

text \<open>The upstream answer handed back as it is.\<close>

definition relay :: "up_response \<Rightarrow> response" where
  "relay r = \<lparr> rsp_status = up_status r,
               rsp_content_type = Some (up_content_type r),
               rsp_body = up_body r \<rparr>"

definition text_response :: "int \<Rightarrow> string \<Rightarrow> response" where
  "text_response st t = \<lparr> rsp_status = st, rsp_content_type = None, rsp_body = t \<rparr>"

definition forward_to_web ::
  "env \<Rightarrow> daemon \<Rightarrow> request \<Rightarrow> param multidict option \<Rightarrow> string option \<Rightarrow> string option
     \<Rightarrow> effect list \<times> outcome" where
  "forward_to_web e d request params data token =
     (case forward_request e d request params data token of
        (f, Inr r) \<Rightarrow> ([Upstream f], Reply (relay r))
      | (f, Inl (ClientConnectionError msg)) \<Rightarrow> ([Upstream f], Reply (text_response 500 msg))
      | (f, Inl x) \<Rightarrow> ([Upstream f], Raise x))"


section \<open>The intercepted endpoints\<close>

definition error_body :: "string \<Rightarrow> string \<Rightarrow> pyval" where
  "error_body errcode msg = PDict [(KStr ''errcode'', PStr errcode), (KStr ''error'', PStr msg)]"

definition missing_token :: "env \<Rightarrow> response" where
  "missing_token e =
     text_response 401 (json_dumps e (error_body ''M_MISSING_TOKEN'' ''Missing access token.''))"

definition unknown_token :: "env \<Rightarrow> response" where
  "unknown_token e =
     text_response 401
       (json_dumps e (error_body ''M_UNKNOWN_TOKEN'' ''Unrecognised access token.''))"

definition not_json :: "env \<Rightarrow> response" where
  "not_json e =
     text_response 400
       (json_dumps e (error_body ''M_NOT_JSON'' ''Request did not contain valid JSON.''))"

text \<open>
  The lookup the three client-bound handlers share:
  \<^verbatim>\<open>client_info = self.client_info[access_token]; client = self.pan_clients[client_info.user_id]\<close>
  under \<^verbatim>\<open>except KeyError\<close>. \<open>None\<close> is the \<^verbatim>\<open>KeyError\<close> of either subscript.
\<close>

definition find_client :: "daemon \<Rightarrow> string \<Rightarrow> pan_client option" where
  "find_client d access_token =
     (case client_info d access_token of
        None \<Rightarrow> None
      | Some info \<Rightarrow> pan_clients d (ci_user_id info))"

text \<open>
  \<^verbatim>\<open>decrypt_body\<close>. A call of the decryption method is recorded with the number of sync
  rounds completed when it is made.
\<close>

datatype decrypt_call = Strict nat | Lenient nat

text \<open>The one exception \<^verbatim>\<open>decrypt_loop\<close> catches.\<close>

definition encryption_error :: "exn + pyval \<Rightarrow> bool" where
  "encryption_error r = (case r of Inl (EncryptionError msg) \<Rightarrow> True | _ \<Rightarrow> False)"

text \<open>
  \<^verbatim>\<open>decrypt_loop\<close> under \<^verbatim>\<open>asyncio.wait_for\<close>. The loop gives control away only in
  \<^verbatim>\<open>await client.synced.wait()\<close>, so the timer can end it only there. \<open>waits\<close> is the
  number of \<open>synced\<close> edges still to come before the deadline, \<open>n\<close> the number of rounds
  completed so far. The result is \<open>None\<close> when \<^verbatim>\<open>wait_for\<close> raises \<^verbatim>\<open>TimeoutError\<close>;
  an exception of the strict call other than \<^verbatim>\<open>EncryptionError\<close> leaves the loop.
  \<^verbatim>\<open>decryption_timeout\<close> is the class constant 10, so the loop makes its first call
  before the timer can end it. The SDK sets and clears \<open>synced\<close> at the end of a sync
  round, so every wait lasts to the next round.
\<close>

fun decrypt_loop ::
  "(nat \<Rightarrow> exn + pyval) \<Rightarrow> nat \<Rightarrow> nat \<Rightarrow> decrypt_call list \<times> (exn + pyval) option" where
  "decrypt_loop strict 0 n =
     (case strict n of
        Inl (EncryptionError msg) \<Rightarrow> ([Strict n], None)
      | r \<Rightarrow> ([Strict n], Some r))"
| "decrypt_loop strict (Suc waits) n =
     (case strict n of
        Inl (EncryptionError msg) \<Rightarrow>
          (case decrypt_loop strict waits (Suc n) of (calls, r) \<Rightarrow> (Strict n # calls, r))
      | r \<Rightarrow> ([Strict n], Some r))"

definition decryption_method :: "pan_client \<Rightarrow> bool \<Rightarrow> nat \<Rightarrow> pyval \<Rightarrow> bool \<Rightarrow> exn + pyval" where
  "decryption_method client sync_mode =
     (if sync_mode then pc_decrypt_sync_body client else pc_decrypt_messages_body client)"

definition decrypt_body ::
  "env \<Rightarrow> pan_client \<Rightarrow> pyval \<Rightarrow> bool \<Rightarrow> decrypt_call list \<times> (exn + pyval)" where
  "decrypt_body e client body sync_mode =
     (case decrypt_loop (\<lambda>n. decryption_method client sync_mode n body False)
             (synced_edges e) 0 of
        (calls, Some r) \<Rightarrow> (calls, r)
      | (calls, None) \<Rightarrow>
          (calls @ [Lenient (synced_edges e)],
           decryption_method client sync_mode (synced_edges e) body True))"

text \<open>
  The tail \<^verbatim>\<open>sync\<close> and \<^verbatim>\<open>messages\<close> share: on status 200 the JSON body goes through
  \<^verbatim>\<open>decrypt_body\<close>; a \<^verbatim>\<open>JSONDecodeError\<close> or \<^verbatim>\<open>ContentTypeError\<close> in there, and every
  other status, gives the upstream answer as it is. Any other exception leaves the
  handler.
\<close>

definition decrypted_reply :: "env \<Rightarrow> pan_client \<Rightarrow> bool \<Rightarrow> up_response \<Rightarrow> outcome" where
  "decrypted_reply e client sync_mode r =
     (if up_status r = 200 then
        (case up_json r of
           Inl JSONDecodeError \<Rightarrow> Reply (relay r)
         | Inl ContentTypeError \<Rightarrow> Reply (relay r)
         | Inl x \<Rightarrow> Raise x
         | Inr json_response \<Rightarrow>
             (case snd (decrypt_body e client json_response sync_mode) of
                Inr body \<Rightarrow> Reply (text_response (up_status r) (json_dumps e body))
              | Inl JSONDecodeError \<Rightarrow> Reply (relay r)
              | Inl ContentTypeError \<Rightarrow> Reply (relay r)
              | Inl x \<Rightarrow> Raise x))
      else Reply (relay r))"

text \<open>
  The \<^verbatim>\<open>filter\<close> parameter of a sync request: a non-empty value that parses to a
  dictionary is sanitized and dumped again; one that parses to anything else is put
  back parsed; one on which \<^verbatim>\<open>json.loads\<close> raises \<^verbatim>\<open>JSONDecodeError\<close> or
  \<^verbatim>\<open>TypeError\<close> is put back as it was.
\<close>

definition sync_query :: "env \<Rightarrow> request \<Rightarrow> exn + param multidict" where
  "sync_query e request =
     (let query = query_params request in
      case md_get (req_query request) ''filter'' of
        None \<Rightarrow> Inr query
      | Some sync_filter \<Rightarrow>
          (if sync_filter = [] then Inr query
           else case json_loads e sync_filter of
             Inl JSONDecodeError \<Rightarrow> Inr (ci_set query ''filter'' (Str sync_filter))
           | Inl TypeError \<Rightarrow> Inr (ci_set query ''filter'' (Str sync_filter))
           | Inl x \<Rightarrow> Inl x
           | Inr (PDict f) \<Rightarrow>
               (case sanitize_filter (PDict f) of
                  Inl x \<Rightarrow> Inl x
                | Inr f' \<Rightarrow> Inr (ci_set query ''filter'' (Str (json_dumps e f'))))
           | Inr v \<Rightarrow> Inr (ci_set query ''filter'' (Parsed v))))"

definition sync :: "env \<Rightarrow> daemon \<Rightarrow> request \<Rightarrow> effect list \<times> outcome" where
  "sync e d request =
     (let access_token = get_access_token request in
      if access_token = [] then ([], Reply (missing_token e))
      else case find_client d access_token of
        None \<Rightarrow> ([], Reply (unknown_token e))
      | Some client \<Rightarrow>
          (case sync_query e request of
             Inl x \<Rightarrow> ([], Raise x)
           | Inr query \<Rightarrow>
               (case forward_request e d request (Some query) None
                       (Some (pc_access_token client)) of
                  (f, Inl (ClientConnectionError msg)) \<Rightarrow>
                    ([Upstream f], Reply (text_response 500 msg))
                | (f, Inl x) \<Rightarrow> ([Upstream f], Raise x)
                | (f, Inr r) \<Rightarrow> ([Upstream f], decrypted_reply e client True r))))"

definition messages :: "env \<Rightarrow> daemon \<Rightarrow> request \<Rightarrow> effect list \<times> outcome" where
  "messages e d request =
     (let access_token = get_access_token request in
      if access_token = [] then ([], Reply (missing_token e))
      else case find_client d access_token of
        None \<Rightarrow> ([], Reply (unknown_token e))
      | Some client \<Rightarrow>
          (case forward_request e d request None None None of
             (f, Inl (ClientConnectionError msg)) \<Rightarrow>
               ([Upstream f], Reply (text_response 500 msg))
           | (f, Inl x) \<Rightarrow> ([Upstream f], Raise x)
           | (f, Inr r) \<Rightarrow> ([Upstream f], decrypted_reply e client False r)))"

definition send_message :: "env \<Rightarrow> daemon \<Rightarrow> request \<Rightarrow> effect list \<times> outcome" where
  "send_message e d request =
     (let access_token = get_access_token request in
      if access_token = [] then ([], Reply (missing_token e))
      else case find_client d access_token of
        None \<Rightarrow> ([], Reply (unknown_token e))
      | Some client \<Rightarrow>
          (let room_id = req_room_id request in
           case pc_rooms client room_id of
             None \<Rightarrow> forward_to_web e d request None None None
           | Some encrypt \<Rightarrow>
               (if \<not> encrypt
                then forward_to_web e d request None None (Some (pc_access_token client))
                else
                  (let msgtype = req_event_type request; txnid = req_txnid request in
                   case request_json e request of
                     Inl JSONDecodeError \<Rightarrow> ([], Reply (not_json e))
                   | Inl ContentTypeError \<Rightarrow> ([], Reply (not_json e))
                   | Inl x \<Rightarrow> ([], Raise x)
                   | Inr content \<Rightarrow>
                       ([RoomSend room_id msgtype content txnid],
                        case pc_room_send client room_id msgtype content txnid of
                          Inl (ClientConnectionError msg) \<Rightarrow> Reply (text_response 500 msg)
                        | Inl (SendRetryError msg) \<Rightarrow> Reply (text_response 503 msg)
                        | Inl x \<Rightarrow> Raise x
                        | Inr r \<Rightarrow> Reply (relay r))))))"

definition filter_handler :: "env \<Rightarrow> daemon \<Rightarrow> request \<Rightarrow> effect list \<times> outcome" where
  "filter_handler e d request =
     (let access_token = get_access_token request in
      if access_token = [] then ([], Reply (missing_token e))
      else case request_json e request of
        Inl JSONDecodeError \<Rightarrow> ([], Reply (not_json e))
      | Inl ContentTypeError \<Rightarrow> ([], Reply (not_json e))
      | Inl x \<Rightarrow> ([], Raise x)
      | Inr content \<Rightarrow>
          (case sanitize_filter content of
             Inl x \<Rightarrow> ([], Raise x)
           | Inr sanitized_content \<Rightarrow>
               forward_to_web e d request None (Some (json_dumps e sanitized_content)) None))"

section \<open>Login and the session tables\<close>



text \<open>
  \<^verbatim>\<open>start_pan_client\<close>: the binding is recorded first; the shadow client is added only
  when none exists for the user and the SDK login succeeds. The store and the keyring
  are not modelled.
\<close>

definition start_pan_client ::
  "env \<Rightarrow> daemon \<Rightarrow> string \<Rightarrow> pyval \<Rightarrow> string \<Rightarrow> pyval \<Rightarrow> daemon" where
  "start_pan_client e d access_token user user_id password =
     (let client = \<lparr> ci_user_id = user_id, ci_access_token = access_token \<rparr>;
          d1 = d \<lparr> client_info := (client_info d)(access_token \<mapsto> client) \<rparr>
      in if pan_clients d1 user_id \<noteq> None then d1
         else case sdk_login e user password of
           None \<Rightarrow> d1
         | Some pan_client \<Rightarrow> d1 \<lparr> pan_clients := (pan_clients d1)(user_id \<mapsto> pan_client) \<rparr>)"




section \<open>Control messages\<close>

definition send_response :: "nat \<Rightarrow> string \<Rightarrow> string \<Rightarrow> string \<Rightarrow> daemon_response" where
  "send_response mid user code msg =
     \<lparr> dr_message_id = mid, dr_pan_user = user, dr_code = code, dr_message = msg \<rparr>"

definition verify_device :: "nat \<Rightarrow> pan_client \<Rightarrow> device \<Rightarrow> daemon_response" where
  "verify_device mid client dv =
     (let msg = (if pc_verify_device client dv
                 then ''Device '' @ dev_id dv @ '' of user '' @ dev_user_id dv
                        @ '' succesfully verified''
                 else ''Device '' @ dev_id dv @ '' of user '' @ dev_user_id dv
                        @ '' already verified'')
      in send_response mid (pc_user_id client) ''m.ok'' msg)"

definition unverify_device :: "nat \<Rightarrow> pan_client \<Rightarrow> device \<Rightarrow> daemon_response" where
  "unverify_device mid client dv =
     (let msg = (if pc_unverify_device client dv
                 then ''Device '' @ dev_id dv @ '' of user '' @ dev_user_id dv
                        @ '' succesfully unverified''
                 else ''Device '' @ dev_id dv @ '' of user '' @ dev_user_id dv
                        @ '' already unverified'')
      in send_response mid (pc_user_id client) ''m.ok'' msg)"

text \<open>
  \<^verbatim>\<open>receive_message\<close>: \<^verbatim>\<open>self.pan_clients.get(message.pan_user)\<close> is \<^verbatim>\<open>None\<close> for a user
  with no shadow client, and every branch then reads an attribute of it. The result is
  the responses put on the output queue, or the exception that leaves the function.
\<close>

fun receive_message :: "env \<Rightarrow> daemon \<Rightarrow> message \<Rightarrow> exn + daemon_response list" where
  "receive_message e d (DeviceVerifyMessage mid p user_id device_id) =
     (case pan_clients d p of
        None \<Rightarrow> Inl AttributeError
      | Some client \<Rightarrow>
          (case pc_device_store client user_id device_id of
             None \<Rightarrow>
               Inr [send_response mid p ''m.unknown_device''
                      (''No device found for '' @ user_id @ '' and '' @ device_id)]
           | Some dv \<Rightarrow> Inr [verify_device mid client dv]))"
| "receive_message e d (DeviceUnverifyMessage mid p user_id device_id) =
     (case pan_clients d p of
        None \<Rightarrow> Inl AttributeError
      | Some client \<Rightarrow>
          (case pc_device_store client user_id device_id of
             None \<Rightarrow>
               Inr [send_response mid p ''m.unknown_device''
                      (''No device found for '' @ user_id @ '' and '' @ device_id)]
           | Some dv \<Rightarrow> Inr [unverify_device mid client dv]))"
| "receive_message e d (AcceptSasMessage mid p) =
     (case pan_clients d p of
        None \<Rightarrow> Inl AttributeError
      | Some client \<Rightarrow>
          (case pc_accept_sas client (AcceptSasMessage mid p) of
             Some x \<Rightarrow> Inl x
           | None \<Rightarrow> Inr []))"
| "receive_message e d (DeviceConfirmSasMessage mid p) =
     (case pan_clients d p of
        None \<Rightarrow> Inl AttributeError
      | Some client \<Rightarrow>
          (case pc_confirm_sas client (DeviceConfirmSasMessage mid p) of
             Some x \<Rightarrow> Inl x
           | None \<Rightarrow> Inr []))"
| "receive_message e d (ExportKeysMessage mid p file_path passphrase) =
     (let path = abspath e file_path in
      case pan_clients d p of
        None \<Rightarrow> Inl AttributeError
      | Some client \<Rightarrow>
          (case pc_export_keys client path passphrase of
             Some (OSError msg) \<Rightarrow> Inr [send_response mid (pc_user_id client) ''m.os_error'' msg]
           | Some x \<Rightarrow> Inl x
           | None \<Rightarrow>
               Inr [send_response mid (pc_user_id client) ''m.ok''
                      (''Succesfully exported keys for '' @ pc_user_id client @ '' to '' @ path)]))"
| "receive_message e d (ImportKeysMessage mid p file_path passphrase) =
     (let path = abspath e file_path in
      case pan_clients d p of
        None \<Rightarrow> Inl AttributeError
      | Some client \<Rightarrow>
          (case pc_import_keys client path passphrase of
             Some (OSError msg) \<Rightarrow> Inr [send_response mid (pc_user_id client) ''m.os_error'' msg]
           | Some (EncryptionError msg) \<Rightarrow>
               Inr [send_response mid (pc_user_id client) ''m.os_error'' msg]
           | Some x \<Rightarrow> Inl x
           | None \<Rightarrow>
               Inr [send_response mid (pc_user_id client) ''m.ok''
                      (''Succesfully imported keys for '' @ pc_user_id client
                         @ '' from '' @ path)]))"
| "receive_message e d (OtherMessage mid p) = Inr []"

section \<open>Example inputs\<close>

definition plain_request :: request where
  "plain_request =
     \<lparr> req_method = ''GET'', req_path = ''/sync'', req_query = [], req_headers = [],
       req_body = [], req_room_id = [], req_event_type = [], req_txnid = [] \<rparr>"

text \<open>A request whose only header is \<open>Authorization: h\<close>.\<close>

definition bearer_request :: "string \<Rightarrow> request" where
  "bearer_request h = plain_request \<lparr> req_headers := [(''Authorization'', h)] \<rparr>"

text \<open>The filter \<open>{"room": {"timeline": t}}\<close>.\<close>

definition timeline_filter_of :: "pydict \<Rightarrow> pyval" where
  "timeline_filter_of t = PDict [(KStr ''room'', PDict [(KStr ''timeline'', PDict t)])]"

text \<open>A daemon that has seen no login.\<close>

definition no_clients :: daemon where
  "no_clients =
     \<lparr> homeserver_url = ''https://hs'', client_info = Map.empty, pan_clients = Map.empty \<rparr>"

text \<open>An upstream answer: 200 with an empty JSON object.\<close>

definition ok_response :: up_response where
  "ok_response =
     \<lparr> up_status = 200, up_content_type = ''application/json'', up_body = ''{}'',
       up_json = Inr (PDict []) \<rparr>"

text \<open>
  An environment whose homeserver answers every request with \<open>ok_response\<close> and refuses
  every SDK login; \<open>json_loads\<close> and \<open>json_dumps\<close> are right on the empty object, the one
  JSON text the examples send. A body decodes unless it holds the byte \<open>0xFF\<close>, which no
  UTF-8 text does. One \<open>synced\<close> edge comes before the deadline.
\<close>

definition env_up :: env where
  "env_up =
     \<lparr> body_text = (\<lambda>b. if CHR 0xFF \<in> set b then Inl UnicodeDecodeError else Inr b),
       json_loads = (\<lambda>s. if s = ''{}'' then Inr (PDict []) else Inl JSONDecodeError),
       json_dumps = (\<lambda>v. if v = PDict [] then ''{}'' else ''null''),
       session_request = (\<lambda>f. Inr ok_response),
       sdk_login = (\<lambda>user password. None),
       abspath = (\<lambda>p. p),
       synced_edges = 1 \<rparr>"

text \<open>A shadow client with one plain and one encrypted room.\<close>

definition alice_client :: pan_client where
  "alice_client =
     \<lparr> pc_user_id = ''@alice:h'',
       pc_access_token = ''S'',
       pc_rooms = [''!plain:h'' \<mapsto> False, ''!secret:h'' \<mapsto> True],
       pc_room_send = (\<lambda>room_id msgtype content txnid. Inr ok_response),
       pc_decrypt_sync_body = (\<lambda>rounds body ignore_failures. Inr body),
       pc_decrypt_messages_body = (\<lambda>rounds body ignore_failures. Inr body),
       pc_device_store = (\<lambda>user_id. Map.empty),
       pc_verify_device = (\<lambda>dv. True),
       pc_unverify_device = (\<lambda>dv. True),
       pc_accept_sas = (\<lambda>m. None),
       pc_confirm_sas = (\<lambda>m. None),
       pc_export_keys = (\<lambda>path passphrase. None),
       pc_import_keys = (\<lambda>path passphrase. None) \<rparr>"

text \<open>A daemon after the login of \<open>@alice:h\<close> with the downstream token \<open>T\<close>.\<close>

definition alice_daemon :: daemon where
  "alice_daemon =
     \<lparr> homeserver_url = ''https://hs'',
       client_info = [''T'' \<mapsto> \<lparr> ci_user_id = ''@alice:h'', ci_access_token = ''T'' \<rparr>],
       pan_clients = [''@alice:h'' \<mapsto> alice_client] \<rparr>"

text \<open>A request that carries its token in the query, for a room and with a body.\<close>

definition token_request :: "string \<Rightarrow> string \<Rightarrow> string \<Rightarrow> request" where
  "token_request token room body =
     \<lparr> req_method = ''PUT'', req_path = ''/send'', req_query = [(''access_token'', token)],
       req_headers = [(''Host'', ''proxy'')], req_body = body, req_room_id = room,
       req_event_type = ''m.room.message'', req_txnid = ''42'' \<rparr>"

text \<open>A request with the headers and parameters a forward treats specially, and one other of each.\<close>

definition full_request :: request where
  "full_request =
     \<lparr> req_method = ''PUT'', req_path = ''/x'',
       req_query = [(''access_token'', ''T''), (''since'', ''s1'')],
       req_headers = [(''Host'', ''proxy''), (''content-length'', ''3''),
                      (''authorization'', ''Bearer T''), (''Accept'', ''any'')],
       req_body = ''old'', req_room_id = [], req_event_type = [], req_txnid = [] \<rparr>"


text \<open>A request to create a filter, with its token in the query.\<close>

definition filter_request :: "string \<Rightarrow> string \<Rightarrow> request" where
  "filter_request token body =
     \<lparr> req_method = ''POST'', req_path = ''/_matrix/client/r0/user/@alice:h/filter'',
       req_query = [(''access_token'', token)], req_headers = [(''Host'', ''proxy'')],
       req_body = body, req_room_id = [], req_event_type = [], req_txnid = [] \<rparr>"

text \<open>
  A request that names \<open>Host\<close> twice and spells the token parameter in capitals.
\<close>

definition variant_request :: request where
  "variant_request =
     \<lparr> req_method = ''GET'', req_path = ''/x'',
       req_query = [(''ACCESS_TOKEN'', ''x'')],
       req_headers = [(''Host'', ''a''), (''host'', ''b'')],
       req_body = [], req_room_id = [], req_event_type = [], req_txnid = [] \<rparr>"

text \<open>
  Two shadow clients without the key of a message. The first gets the key with its next
  sync round; the second never gets it. Lenient decryption leaves the message as it is.
\<close>

definition late_key_client :: pan_client where
  "late_key_client =
     alice_client
       \<lparr> pc_decrypt_sync_body :=
           (\<lambda>rounds body ignore_failures.
              if 1 \<le> rounds then Inr (PStr ''clear'')
              else if ignore_failures then Inr body
              else Inl (EncryptionError ''no session'')) \<rparr>"

definition no_key_client :: pan_client where
  "no_key_client =
     alice_client
       \<lparr> pc_decrypt_messages_body :=
           (\<lambda>rounds body ignore_failures.
              if ignore_failures then Inr body
              else Inl (EncryptionError ''no session'')) \<rparr>"

section \<open>Access-token extraction: what \<open>strip\<close> does\<close>

text \<open>
  Claim C4. Token extraction reads the \<open>access_token\<close> query parameter and, if that is
  empty, the \<open>Authorization\<close> header with a leading \<open>Bearer \<close> prefix stripped, so that
  \<open>Bearer XXX\<close> gives \<open>XXX\<close> and \<open>BearXXX\<close> gives \<open>BearXXX\<close>.

  The code calls \<^verbatim>\<open>.strip("Bearer ")\<close>, which removes the characters \<open>B\<close>, \<open>e\<close>, \<open>a\<close>,
  \<open>r\<close> and the space from both ends. \<open>Bearer XXX\<close> does give \<open>XXX\<close>, but \<open>BearXXX\<close> gives
  \<open>XXX\<close> as well, and the token \<open>abcde\<close> sent as \<open>Bearer abcde\<close> arrives as \<open>bcd\<close>.
\<close>

theorem get_access_token_strips_characters:
  "get_access_token (bearer_request ''Bearer XXX'') = ''XXX''
   \<and> get_access_token (bearer_request ''BearXXX'') = ''XXX''
   \<and> get_access_token (bearer_request ''BearXXX'') \<noteq> ''BearXXX''
   \<and> get_access_token (bearer_request ''Bearer abcde'') = ''bcd''"
  by code_simp

section \<open>The sanitizer on an empty \<open>types\<close> and on a repeated \<open>not_types\<close> entry\<close>

text \<open>
  Claim C2. For every filter \<open>F\<close>: whenever \<open>F.room.timeline.types\<close> exists,
  \<open>m.room.encrypted\<close> is in \<open>sanitize(F).room.timeline.types\<close>; whenever
  \<open>F.room.timeline.not_types\<close> exists, \<open>m.room.encrypted\<close> is not in
  \<open>sanitize(F).room.timeline.not_types\<close>.

  The code fails both halves. \<^verbatim>\<open>if types_filter:\<close> skips an empty list, so
  \<open>{"room": {"timeline": {"types": []}}}\<close> comes back unchanged. \<^verbatim>\<open>list.remove\<close> takes
  out one occurrence, so a \<open>not_types\<close> that names the type twice still names it once.
\<close>

theorem sanitize_filter_leaves_encrypted_filtered:
  "timeline_field (timeline_filter_of [(KStr ''types'', PList [])]) ''types'' = Some (PList [])
   \<and> sanitize_filter (timeline_filter_of [(KStr ''types'', PList [])])
       = Inr (timeline_filter_of [(KStr ''types'', PList [])])
   \<and> sanitize_filter
         (timeline_filter_of
            [(KStr ''not_types'', PList [PStr ''m.room.encrypted'', PStr ''m.room.encrypted''])])
       = Inr (timeline_filter_of [(KStr ''not_types'', PList [PStr ''m.room.encrypted''])])"
  by code_simp

text \<open>
  Claim C8. The sanitizer is idempotent: \<open>sanitize(sanitize(F))\<close> equals \<open>sanitize(F)\<close>.

  With \<open>m.room.encrypted\<close> twice in \<open>not_types\<close>, the first pass leaves one occurrence and
  the second pass removes it: the two results differ. Each result is the value the
  returned filter has when its call returns, which is what \<^verbatim>\<open>json.dumps\<close> of it sends.
\<close>

theorem sanitize_filter_second_pass_differs:
  "sanitize_filter
     (timeline_filter_of
        [(KStr ''not_types'', PList [PStr ''m.room.encrypted'', PStr ''m.room.encrypted''])])
     = Inr (timeline_filter_of [(KStr ''not_types'', PList [PStr ''m.room.encrypted''])])
   \<and> sanitize_filter (timeline_filter_of [(KStr ''not_types'', PList [PStr ''m.room.encrypted''])])
     = Inr (timeline_filter_of [(KStr ''not_types'', PList [])])
   \<and> timeline_filter_of [(KStr ''not_types'', PList [])]
     \<noteq> timeline_filter_of [(KStr ''not_types'', PList [PStr ''m.room.encrypted''])]"
  by code_simp

section \<open>A control message for a user with no shadow client\<close>

text \<open>
  Claim C9. For every control message, also one whose \<open>pan_user\<close> has no shadow client in
  \<open>pan_clients\<close>, the dispatcher completes without raising: a failure is reported as a
  \<open>DaemonResponse\<close> only.

  \<^verbatim>\<open>self.pan_clients.get(message.pan_user)\<close> is \<^verbatim>\<open>None\<close> for such a user and the branch
  reads \<^verbatim>\<open>client.device_store\<close>: the spec's own scenario 6, sent to a daemon that has no
  client for \<open>@alice:h\<close>, raises \<^verbatim>\<open>AttributeError\<close> and puts nothing on the output queue.
\<close>

theorem receive_message_raises_without_client:
  "receive_message e no_clients (DeviceVerifyMessage 7 ''@alice:h'' ''@bob:h'' ''X'')
     = Inl AttributeError"
  by (simp add: no_clients_def)

section \<open>Names without regard to case\<close>

lemma ci_eq_sym: "ci_eq a b \<Longrightarrow> ci_eq b a"
  unfolding ci_eq_def by (rule sym)

lemma ci_eq_trans: "ci_eq a b \<Longrightarrow> ci_eq b c \<Longrightarrow> ci_eq a c"
  unfolding ci_eq_def by (rule trans)

lemma ci_eq_refl: "ci_eq a a"
  unfolding ci_eq_def by (rule refl)

lemma ci_eq_other: "ci_eq a k \<Longrightarrow> \<not> ci_eq k' k \<Longrightarrow> \<not> ci_eq a k'"
  using ci_eq_sym ci_eq_trans by blast

lemma named_Cons:
  "named ((a, v) # d) k = (if ci_eq a k then (a, v) # named d k else named d k)"
  by (simp add: named_def)

lemma named_Nil: "named [] k = []"
  by (simp add: named_def)

lemma named_ci_pop_other:
  "\<not> ci_eq k' k \<Longrightarrow> named (ci_pop d k) k' = named d k'"
proof (induction d)
  case Nil
  show ?case by simp
next
  case (Cons a d)
  obtain n v where a: "a = (n, v)" by (cases a)
  show ?case
  proof (cases "ci_eq n k")
    case True
    then have "\<not> ci_eq n k'" using Cons.prems by (rule ci_eq_other)
    with True show ?thesis by (simp add: a named_Cons)
  next
    case False
    with Cons show ?thesis by (simp add: a named_Cons)
  qed
qed

lemma named_ci_pop_single:
  "length (named d k) \<le> 1 \<Longrightarrow> named (ci_pop d k) k = []"
proof (induction d)
  case Nil
  show ?case by (simp add: named_Nil)
next
  case (Cons a d)
  obtain n v where a: "a = (n, v)" by (cases a)
  show ?case
  proof (cases "ci_eq n k")
    case True
    with Cons.prems have "named d k = []" by (simp add: a named_Cons)
    with True show ?thesis by (simp add: a)
  next
    case False
    with Cons show ?thesis by (simp add: a named_Cons)
  qed
qed

lemma named_filter_other:
  "\<not> ci_eq k' k \<Longrightarrow> named (filter (\<lambda>e. \<not> ci_eq (fst e) k) d) k' = named d k'"
proof (induction d)
  case Nil
  show ?case by simp
next
  case (Cons a d)
  obtain n v where a: "a = (n, v)" by (cases a)
  show ?case
  proof (cases "ci_eq n k")
    case True
    then have "\<not> ci_eq n k'" using Cons.prems by (rule ci_eq_other)
    with True Cons show ?thesis by (simp add: a named_Cons)
  next
    case False
    with Cons show ?thesis by (simp add: a named_Cons)
  qed
qed

lemma named_filter_same: "named (filter (\<lambda>e. \<not> ci_eq (fst e) k) d) k = []"
  by (induction d) (simp_all add: named_def)

lemma named_ci_set_other:
  "\<not> ci_eq k' k \<Longrightarrow> named (ci_set d k v) k' = named d k'"
proof (induction d)
  case Nil
  then have "\<not> ci_eq k k'" using ci_eq_sym by blast
  then show ?case by (simp add: named_Cons named_Nil)
next
  case (Cons a d)
  obtain n w where a: "a = (n, w)" by (cases a)
  show ?case
  proof (cases "ci_eq n k")
    case True
    then have n: "\<not> ci_eq n k'" using Cons.prems by (rule ci_eq_other)
    have k: "\<not> ci_eq k k'" using Cons.prems ci_eq_sym by blast
    from True n k Cons.prems show ?thesis
      by (simp add: a named_Cons named_filter_other)
  next
    case False
    with Cons show ?thesis by (simp add: a named_Cons)
  qed
qed

lemma named_ci_set_same:
  "ci_mem d k \<Longrightarrow> named (ci_set d k v) k = [(k, v)]"
proof (induction d)
  case Nil
  then show ?case by (simp add: ci_mem_def)
next
  case (Cons a d)
  obtain n w where a: "a = (n, w)" by (cases a)
  show ?case
  proof (cases "ci_eq n k")
    case True
    then show ?thesis by (simp add: a named_Cons named_filter_same ci_eq_refl)
  next
    case False
    with Cons show ?thesis by (simp add: a named_Cons ci_mem_def)
  qed
qed

lemma ci_mem_named: "ci_mem d k \<longleftrightarrow> named d k \<noteq> []"
  by (induction d) (auto simp: named_def ci_mem_def)

section \<open>A token bound to a user that has no shadow client\<close>

text \<open>
  Claim C10. For every Sync, Messages or Send request whose access token is in
  \<open>client_info\<close> but whose bound user has no entry in \<open>pan_clients\<close> (the SDK login failed
  after the binding was recorded), the handler answers 401 \<open>M_UNKNOWN_TOKEN\<close>, exactly as
  for a token never seen.

  Both subscripts stand under one \<^verbatim>\<open>except KeyError\<close>. The last conjunct compares with
  any daemon \<open>d'\<close> that has never seen the token.
\<close>

theorem bound_token_without_client:
  "get_access_token request \<noteq> []
   \<and> client_info d (get_access_token request) = Some info
   \<and> pan_clients d (ci_user_id info) = None
   \<longrightarrow> sync e d request = ([], Reply (unknown_token e))
       \<and> messages e d request = ([], Reply (unknown_token e))
       \<and> send_message e d request = ([], Reply (unknown_token e))
       \<and> rsp_status (unknown_token e) = 401
       \<and> rsp_body (unknown_token e)
            = json_dumps e (error_body ''M_UNKNOWN_TOKEN'' ''Unrecognised access token.'')
       \<and> (client_info d' (get_access_token request) = None
            \<longrightarrow> sync e d' request = sync e d request
              \<and> messages e d' request = messages e d request
              \<and> send_message e d' request = send_message e d request)"
  by (simp add: sync_def messages_def send_message_def find_client_def unknown_token_def
      text_response_def)

text \<open>
  The state of the witness is the one \<^verbatim>\<open>start_pan_client\<close> leaves behind when the SDK
  login fails: the binding of \<open>T\<close> is recorded, the shadow client is not.
\<close>

theorem bound_token_without_client_witness:
  "get_access_token (token_request ''T'' ''!plain:h'' ''{}'') = ''T''
   \<and> client_info (start_pan_client env_up no_clients ''T'' (PStr ''alice'') ''@alice:h'' (PStr ''p'')) ''T''
       = Some \<lparr> ci_user_id = ''@alice:h'', ci_access_token = ''T'' \<rparr>
   \<and> pan_clients (start_pan_client env_up no_clients ''T'' (PStr ''alice'') ''@alice:h'' (PStr ''p''))
        ''@alice:h'' = None
   \<and> sync env_up (start_pan_client env_up no_clients ''T'' (PStr ''alice'') ''@alice:h'' (PStr ''p''))
        (token_request ''T'' ''!plain:h'' ''{}'') = ([], Reply (unknown_token env_up))
   \<and> messages env_up (start_pan_client env_up no_clients ''T'' (PStr ''alice'') ''@alice:h'' (PStr ''p''))
        (token_request ''T'' ''!plain:h'' ''{}'') = ([], Reply (unknown_token env_up))
   \<and> send_message env_up (start_pan_client env_up no_clients ''T'' (PStr ''alice'') ''@alice:h'' (PStr ''p''))
        (token_request ''T'' ''!plain:h'' ''{}'') = ([], Reply (unknown_token env_up))
   \<and> rsp_status (unknown_token env_up) = 401"
proof -
  let ?d = "start_pan_client env_up no_clients ''T'' (PStr ''alice'') ''@alice:h'' (PStr ''p'')"
  let ?r = "token_request ''T'' ''!plain:h'' ''{}''"
  let ?i = "\<lparr> ci_user_id = ''@alice:h'', ci_access_token = ''T'' \<rparr>"
  have t: "get_access_token ?r = ''T''"
    by (simp add: get_access_token_def token_request_def md_get_def)
  have i: "client_info ?d ''T'' = Some ?i"
    by (simp add: start_pan_client_def no_clients_def env_up_def)
  have p: "pan_clients ?d ''@alice:h'' = None"
    by (simp add: start_pan_client_def no_clients_def env_up_def)
  from bound_token_without_client [of ?r ?d ?i env_up] t i p
  show ?thesis by simp
qed

section \<open>Missing and unknown access tokens\<close>

lemma filter_handler_tables:
  "homeserver_url d' = homeserver_url d
   \<Longrightarrow> filter_handler e d' request = filter_handler e d request"
  by (simp add: filter_handler_def forward_to_web_def forward_request_def
      split: option.splits sum.splits)

text \<open>
  Claim C1. On every intercepted endpoint that requires authentication (Sync, Messages,
  Send, Filter) an empty access token is answered with 401 \<open>M_MISSING_TOKEN\<close>, and a
  non-empty token that is not in \<open>client_info\<close> with 401 \<open>M_UNKNOWN_TOKEN\<close>.

  The claim fails for Filter: \<^verbatim>\<open>filter\<close> checks that a token is there and never looks
  it up. With a token the daemon has never seen, the sanitized filter goes upstream and
  the homeserver's answer comes back.
\<close>

theorem filter_handler_forwards_unknown_token:
  "get_access_token (filter_request ''U'' ''{}'') = ''U''
   \<and> client_info alice_daemon ''U'' = None
   \<and> filter_handler env_up alice_daemon (filter_request ''U'' ''{}'')
       = ([Upstream \<lparr> fwd_method = ''POST'',
                       fwd_url = ''https://hs/_matrix/client/r0/user/@alice:h/filter'',
                       fwd_data = ''{}'',
                       fwd_params = [(''access_token'', Str ''U'')], fwd_headers = [] \<rparr>],
          Reply \<lparr> rsp_status = 200, rsp_content_type = Some ''application/json'',
                  rsp_body = ''{}'' \<rparr>)"
  by code_simp

text \<open>
  Claim C1, amended. Sync, Messages, Send and Filter answer an empty token with 401
  \<open>M_MISSING_TOKEN\<close>. Sync, Messages and Send answer a non-empty token that is not in
  \<open>client_info\<close> with 401 \<open>M_UNKNOWN_TOKEN\<close>. Filter does not consult the tables: its
  result is the same for any two daemons with the same homeserver.
\<close>

theorem token_checks:
  "(get_access_token request = []
      \<longrightarrow> sync e d request = ([], Reply (missing_token e))
        \<and> messages e d request = ([], Reply (missing_token e))
        \<and> send_message e d request = ([], Reply (missing_token e))
        \<and> filter_handler e d request = ([], Reply (missing_token e)))
   \<and> (get_access_token request \<noteq> [] \<and> client_info d (get_access_token request) = None
      \<longrightarrow> sync e d request = ([], Reply (unknown_token e))
        \<and> messages e d request = ([], Reply (unknown_token e))
        \<and> send_message e d request = ([], Reply (unknown_token e)))
   \<and> (homeserver_url d' = homeserver_url d
      \<longrightarrow> filter_handler e d' request = filter_handler e d request)
   \<and> rsp_status (missing_token e) = 401
   \<and> rsp_body (missing_token e)
        = json_dumps e (error_body ''M_MISSING_TOKEN'' ''Missing access token.'')
   \<and> rsp_status (unknown_token e) = 401
   \<and> rsp_body (unknown_token e)
        = json_dumps e (error_body ''M_UNKNOWN_TOKEN'' ''Unrecognised access token.'')"
proof -
  have missing: "get_access_token request = []
      \<longrightarrow> sync e d request = ([], Reply (missing_token e))
        \<and> messages e d request = ([], Reply (missing_token e))
        \<and> send_message e d request = ([], Reply (missing_token e))
        \<and> filter_handler e d request = ([], Reply (missing_token e))"
    by (simp add: sync_def messages_def send_message_def filter_handler_def)
  have unknown: "get_access_token request \<noteq> [] \<and> client_info d (get_access_token request) = None
      \<longrightarrow> sync e d request = ([], Reply (unknown_token e))
        \<and> messages e d request = ([], Reply (unknown_token e))
        \<and> send_message e d request = ([], Reply (unknown_token e))"
    by (simp add: sync_def messages_def send_message_def find_client_def)
  have tables: "homeserver_url d' = homeserver_url d
      \<longrightarrow> filter_handler e d' request = filter_handler e d request"
    using filter_handler_tables by blast
  have bodies: "rsp_status (missing_token e) = 401
    \<and> rsp_body (missing_token e)
        = json_dumps e (error_body ''M_MISSING_TOKEN'' ''Missing access token.'')
    \<and> rsp_status (unknown_token e) = 401
    \<and> rsp_body (unknown_token e)
        = json_dumps e (error_body ''M_UNKNOWN_TOKEN'' ''Unrecognised access token.'')"
    by (simp add: missing_token_def unknown_token_def text_response_def)
  from missing unknown tables bodies show ?thesis by blast
qed

theorem token_checks_witness:
  "get_access_token plain_request = []
   \<and> sync env_up alice_daemon plain_request = ([], Reply (missing_token env_up))
   \<and> filter_handler env_up alice_daemon plain_request = ([], Reply (missing_token env_up))
   \<and> get_access_token (token_request ''U'' ''!plain:h'' ''{}'') = ''U''
   \<and> client_info alice_daemon ''U'' = None
   \<and> sync env_up alice_daemon (token_request ''U'' ''!plain:h'' ''{}'')
       = ([], Reply (unknown_token env_up))
   \<and> messages env_up alice_daemon (token_request ''U'' ''!plain:h'' ''{}'')
       = ([], Reply (unknown_token env_up))
   \<and> send_message env_up alice_daemon (token_request ''U'' ''!plain:h'' ''{}'')
       = ([], Reply (unknown_token env_up))
   \<and> filter_handler env_up no_clients (filter_request ''U'' ''{}'')
       = filter_handler env_up alice_daemon (filter_request ''U'' ''{}'')"
proof -
  let ?r = "token_request ''U'' ''!plain:h'' ''{}''"
  have a: "get_access_token plain_request = []"
    by (simp add: get_access_token_def plain_request_def md_get_def py_strip_def)
  have b: "get_access_token ?r = ''U''"
    by (simp add: get_access_token_def token_request_def md_get_def)
  have c: "client_info alice_daemon ''U'' = None"
    by (simp add: alice_daemon_def)
  have h: "homeserver_url no_clients = homeserver_url alice_daemon"
    by (simp add: alice_daemon_def no_clients_def)
  from token_checks [of plain_request env_up alice_daemon no_clients] a
  have 1: "sync env_up alice_daemon plain_request = ([], Reply (missing_token env_up))"
    and 2: "filter_handler env_up alice_daemon plain_request = ([], Reply (missing_token env_up))"
    by simp_all
  from token_checks [of ?r env_up alice_daemon no_clients] b c
  have 3: "sync env_up alice_daemon ?r = ([], Reply (unknown_token env_up))"
    and 4: "messages env_up alice_daemon ?r = ([], Reply (unknown_token env_up))"
    and 5: "send_message env_up alice_daemon ?r = ([], Reply (unknown_token env_up))"
    by simp_all
  from token_checks [of "filter_request ''U'' ''{}''" env_up alice_daemon no_clients] h
  have 6: "filter_handler env_up no_clients (filter_request ''U'' ''{}'')
             = filter_handler env_up alice_daemon (filter_request ''U'' ''{}'')"
    by simp
  from a b c 1 2 3 4 5 6 show ?thesis by simp
qed

section \<open>A request body that is not JSON\<close>


text \<open>
  The handlers catch \<^verbatim>\<open>JSONDecodeError\<close> and \<^verbatim>\<open>ContentTypeError\<close> only. A body that is
  not text at all makes \<^verbatim>\<open>request.json()\<close> raise \<^verbatim>\<open>UnicodeDecodeError\<close>, and that
  leaves the handler.
\<close>

lemma filter_handler_raises_on_undecodable_body:
  "filter_handler env_up alice_daemon (filter_request ''T'' [CHR 0xFF])
     = ([], Raise UnicodeDecodeError)"
  by code_simp



section \<open>What \<open>forward_args\<close> does to headers and parameters\<close>


lemma header_names_differ:
  "\<not> ci_eq ''Host'' ''Authorization''"
  "\<not> ci_eq ''Host'' ''Content-Length''"
  "\<not> ci_eq ''Authorization'' ''Host''"
  "\<not> ci_eq ''Content-Length'' ''Host''"
  "\<not> ci_eq ''Authorization'' ''Content-Length''"
  "\<not> ci_eq ''Content-Length'' ''Authorization''"
  by code_simp+

lemma forward_args_headers:
  "fwd_headers (forward_args base request params data token)
     = (let h0 = ci_pop (req_headers request) ''Host'';
            h1 = (if given token \<and> ci_mem h0 ''Authorization''
                  then ci_set h0 ''Authorization'' (''Bearer '' @ the token) else h0)
        in if given data then ci_pop h1 ''Content-Length'' else h1)"
  by (simp add: forward_args_def Let_def)

lemma forward_args_params:
  "fwd_params (forward_args base request params data token)
     = (let p0 = (case params of None \<Rightarrow> query_params request
                  | Some p \<Rightarrow> if p \<noteq> [] then p else query_params request)
        in if given token \<and> ci_mem p0 ''access_token''
           then ci_set p0 ''access_token'' (Str (the token)) else p0)"
  by (simp add: forward_args_def Let_def)

lemma ci_mem_pop_host:
  "ci_mem (ci_pop hs ''Host'') ''Authorization'' = ci_mem hs ''Authorization''"
  by (simp add: ci_mem_named named_ci_pop_other header_names_differ)

lemma forwarded_other_headers:
  assumes "\<not> ci_eq k ''Host''" "\<not> ci_eq k ''Content-Length''" "\<not> ci_eq k ''Authorization''"
  shows "named (fwd_headers (forward_args base request params data token)) k
           = named (req_headers request) k"
  using assms
  by (simp add: forward_args_headers Let_def named_ci_pop_other named_ci_set_other)

lemma forwarded_host:
  assumes "length (named (req_headers request) ''Host'') \<le> 1"
  shows "named (fwd_headers (forward_args base request params data token)) ''Host'' = []"
  using assms
  by (simp add: forward_args_headers Let_def named_ci_pop_other named_ci_set_other
      named_ci_pop_single header_names_differ)

lemma forwarded_content_length:
  "given data \<Longrightarrow> length (named (req_headers request) ''Content-Length'') \<le> 1
   \<Longrightarrow> named (fwd_headers (forward_args base request params data token)) ''Content-Length'' = []"
  "\<not> given data
   \<Longrightarrow> named (fwd_headers (forward_args base request params data token)) ''Content-Length''
       = named (req_headers request) ''Content-Length''"
  by (simp_all add: forward_args_headers Let_def named_ci_pop_other named_ci_set_other
      named_ci_pop_single header_names_differ)

lemma forwarded_authorization:
  "given token \<Longrightarrow> ci_mem (req_headers request) ''Authorization''
   \<Longrightarrow> named (fwd_headers (forward_args base request params data token)) ''Authorization''
       = [(''Authorization'', ''Bearer '' @ the token)]"
  "\<not> (given token \<and> ci_mem (req_headers request) ''Authorization'')
   \<Longrightarrow> named (fwd_headers (forward_args base request params data token)) ''Authorization''
       = named (req_headers request) ''Authorization''"
  by (auto simp: forward_args_headers Let_def named_ci_pop_other named_ci_set_same
      ci_mem_pop_host header_names_differ)

lemma forwarded_other_params:
  "\<not> ci_eq k ''access_token''
   \<Longrightarrow> named (fwd_params (forward_args base request params data token)) k
       = named (case params of None \<Rightarrow> query_params request
                | Some p \<Rightarrow> if p \<noteq> [] then p else query_params request) k"
  by (simp add: forward_args_params Let_def named_ci_set_other)

lemma forwarded_access_token:
  "given token
   \<Longrightarrow> ci_mem (case params of None \<Rightarrow> query_params request
               | Some p \<Rightarrow> if p \<noteq> [] then p else query_params request) ''access_token''
   \<Longrightarrow> named (fwd_params (forward_args base request params data token)) ''access_token''
       = [(''access_token'', Str (the token))]"
  "\<not> (given token
       \<and> ci_mem (case params of None \<Rightarrow> query_params request
                 | Some p \<Rightarrow> if p \<noteq> [] then p else query_params request) ''access_token'')
   \<Longrightarrow> fwd_params (forward_args base request params data token)
       = (case params of None \<Rightarrow> query_params request
          | Some p \<Rightarrow> if p \<noteq> [] then p else query_params request)"
  by (auto simp: forward_args_params Let_def named_ci_set_same)


text \<open>\<^verbatim>\<open>pop\<close> takes out the first entry of the name and leaves the others.\<close>

lemma named_ci_pop_same: "named (ci_pop d k) k = tl (named d k)"
proof (induction d)
  case Nil
  show ?case by (simp add: named_Nil)
next
  case (Cons a d)
  obtain n v where a: "a = (n, v)" by (cases a)
  show ?case
  proof (cases "ci_eq n k")
    case True
    then show ?thesis by (simp add: a named_Cons)
  next
    case False
    with Cons show ?thesis by (simp add: a named_Cons)
  qed
qed

lemma forwarded_host_entries:
  "named (fwd_headers (forward_args base request params data token)) ''Host''
     = tl (named (req_headers request) ''Host'')"
  by (simp add: forward_args_headers Let_def named_ci_pop_other named_ci_set_other
      named_ci_pop_same header_names_differ)

lemma forwarded_content_length_entries:
  "given data
   \<Longrightarrow> named (fwd_headers (forward_args base request params data token)) ''Content-Length''
       = tl (named (req_headers request) ''Content-Length'')"
  by (simp add: forward_args_headers Let_def named_ci_pop_other named_ci_set_other
      named_ci_pop_same header_names_differ)



lemma forward_args_basics:
  "fwd_method (forward_args base request params data token) = req_method request"
  "fwd_url (forward_args base request params data token) = base @ req_path request"
  "fwd_data (forward_args base request params data token)
     = (if given data then the data else req_body request)"
  by (simp_all add: forward_args_def Let_def)




section \<open>Sending into a room\<close>




section \<open>What a forwarded request keeps\<close>

text \<open>
  Claim C7. Every forwarded request keeps the method, the path appended to the upstream
  base URL, the query parameters, and all headers except \<open>Host\<close> (and except
  \<open>Content-Length\<close> when a rewritten body is supplied); when a replacement token is
  supplied, exactly the \<open>Authorization\<close> header (if present) and the \<open>access_token\<close>
  query parameter (if present) are rewritten to that token, and nothing else changes.

  It fails on a request that names a field twice, or names the parameter in another
  case. \<^verbatim>\<open>forward_request\<close> copies the headers and the parameters into a \<^verbatim>\<open>CIMultiDict\<close>,
  which compares names without regard to case: \<^verbatim>\<open>pop\<close> takes out one \<open>Host\<close> entry and
  leaves a second one, and the assignment of \<open>access_token\<close> replaces a parameter
  \<open>ACCESS_TOKEN\<close>, which \<^verbatim>\<open>get_access_token\<close> does not read as the access token.
\<close>

theorem forward_request_changes_other_entries:
  "md_get (req_query variant_request) ''access_token'' = None
   \<and> get_access_token variant_request = []
   \<and> query_params variant_request = [(''ACCESS_TOKEN'', Str ''x'')]
   \<and> fwd_params (fst (forward_request env_up alice_daemon variant_request None None (Some ''S'')))
       = [(''access_token'', Str ''S'')]
   \<and> req_headers variant_request = [(''Host'', ''a''), (''host'', ''b'')]
   \<and> fwd_headers (fst (forward_request env_up alice_daemon variant_request None None (Some ''S'')))
       = [(''host'', ''b'')]"
  by code_simp

text \<open>
  Claim C7, amended. Every forwarded request keeps the method, the path appended to the
  upstream base URL, and the body unless a rewritten body is supplied. Names compared
  without regard to case: the entries of every header name other than \<open>Host\<close>,
  \<open>Content-Length\<close> and \<open>Authorization\<close> are kept; the first \<open>Host\<close> entry is removed and
  any further one kept; the first \<open>Content-Length\<close> entry is removed when a rewritten
  body is supplied, and all are kept otherwise; the entries of every parameter name other
  than \<open>access_token\<close> are kept. When a replacement token is supplied and the request has
  an \<open>Authorization\<close> entry, all its \<open>Authorization\<close> entries become the one entry
  \<open>Authorization: Bearer\<close> and the token, and otherwise they are kept; when a replacement
  token is supplied and the parameters have an \<open>access_token\<close> entry, all of them become
  the one entry \<open>access_token\<close> with the token, and otherwise the parameters are kept
  whole.

  Stated on the request \<^verbatim>\<open>forward_request\<close> hands to \<^verbatim>\<open>session.request\<close>; \<open>named\<close> gives
  the entries of one name. The parameters are the ones the caller passes, or the
  request's own. Supplied is Python's truth value: a token, body or parameter list that
  is not empty.
\<close>

theorem forward_request_frame:
  "fwd_method (fst (forward_request e d request params data token)) = req_method request
   \<and> fwd_url (fst (forward_request e d request params data token))
       = homeserver_url d @ req_path request
   \<and> fwd_data (fst (forward_request e d request params data token))
       = (if given data then the data else req_body request)
   \<and> (\<forall>k. \<not> ci_eq k ''Host'' \<and> \<not> ci_eq k ''Content-Length'' \<and> \<not> ci_eq k ''Authorization''
          \<longrightarrow> named (fwd_headers (fst (forward_request e d request params data token))) k
                = named (req_headers request) k)
   \<and> named (fwd_headers (fst (forward_request e d request params data token))) ''Host''
       = tl (named (req_headers request) ''Host'')
   \<and> (given data
        \<longrightarrow> named (fwd_headers (fst (forward_request e d request params data token)))
                ''Content-Length'' = tl (named (req_headers request) ''Content-Length''))
   \<and> (\<not> given data
        \<longrightarrow> named (fwd_headers (fst (forward_request e d request params data token)))
                ''Content-Length'' = named (req_headers request) ''Content-Length'')
   \<and> (given token \<and> ci_mem (req_headers request) ''Authorization''
        \<longrightarrow> named (fwd_headers (fst (forward_request e d request params data token)))
                ''Authorization'' = [(''Authorization'', ''Bearer '' @ the token)])
   \<and> (\<not> (given token \<and> ci_mem (req_headers request) ''Authorization'')
        \<longrightarrow> named (fwd_headers (fst (forward_request e d request params data token)))
                ''Authorization'' = named (req_headers request) ''Authorization'')
   \<and> (\<forall>k. \<not> ci_eq k ''access_token''
          \<longrightarrow> named (fwd_params (fst (forward_request e d request params data token))) k
                = named (case params of None \<Rightarrow> query_params request
                         | Some p \<Rightarrow> if p \<noteq> [] then p else query_params request) k)
   \<and> (given token
        \<and> ci_mem (case params of None \<Rightarrow> query_params request
                  | Some p \<Rightarrow> if p \<noteq> [] then p else query_params request) ''access_token''
        \<longrightarrow> named (fwd_params (fst (forward_request e d request params data token)))
                ''access_token'' = [(''access_token'', Str (the token))])
   \<and> (\<not> (given token
           \<and> ci_mem (case params of None \<Rightarrow> query_params request
                     | Some p \<Rightarrow> if p \<noteq> [] then p else query_params request)
                 ''access_token'')
        \<longrightarrow> fwd_params (fst (forward_request e d request params data token))
              = (case params of None \<Rightarrow> query_params request
                 | Some p \<Rightarrow> if p \<noteq> [] then p else query_params request))"
proof -
  have f: "fst (forward_request e d request params data token)
             = forward_args (homeserver_url d) request params data token"
    by (simp add: forward_request_def Let_def)
  show ?thesis
    unfolding f
    apply (intro conjI allI impI)
               apply (simp add: forward_args_basics)
              apply (simp add: forward_args_basics)
             apply (simp add: forward_args_basics)
            apply (simp add: forwarded_other_headers)
           apply (rule forwarded_host_entries)
          apply (rule forwarded_content_length_entries, assumption)
         apply (simp add: forwarded_content_length(2))
        apply (simp add: forwarded_authorization(1))
       apply (rule forwarded_authorization(2), assumption)
      apply (simp add: forwarded_other_params)
     apply (simp add: forwarded_access_token(1))
    apply (rule forwarded_access_token(2), assumption)
    done
qed

theorem forward_request_frame_witness:
  "fwd_method (fst (forward_request env_up alice_daemon full_request None (Some ''{}'') (Some ''S'')))
     = ''PUT''
   \<and> fwd_url (fst (forward_request env_up alice_daemon full_request None (Some ''{}'') (Some ''S'')))
     = ''https://hs/x''
   \<and> fwd_data (fst (forward_request env_up alice_daemon full_request None (Some ''{}'') (Some ''S'')))
     = ''{}''
   \<and> named (fwd_headers
        (fst (forward_request env_up alice_daemon full_request None (Some ''{}'') (Some ''S''))))
        ''Accept'' = [(''Accept'', ''any'')]
   \<and> named (fwd_headers
        (fst (forward_request env_up alice_daemon full_request None (Some ''{}'') (Some ''S''))))
        ''Host'' = []
   \<and> named (fwd_headers
        (fst (forward_request env_up alice_daemon full_request None (Some ''{}'') (Some ''S''))))
        ''Content-Length'' = []
   \<and> named (fwd_headers
        (fst (forward_request env_up alice_daemon full_request None (Some ''{}'') (Some ''S''))))
        ''Authorization'' = [(''Authorization'', ''Bearer S'')]
   \<and> named (fwd_params
        (fst (forward_request env_up alice_daemon full_request None (Some ''{}'') (Some ''S''))))
        ''since'' = [(''since'', Str ''s1'')]
   \<and> named (fwd_params
        (fst (forward_request env_up alice_daemon full_request None (Some ''{}'') (Some ''S''))))
        ''access_token'' = [(''access_token'', Str ''S'')]"
proof -
  have differ: "\<not> ci_eq ''Accept'' ''Host''" "\<not> ci_eq ''Accept'' ''Content-Length''"
    "\<not> ci_eq ''Accept'' ''Authorization''" "\<not> ci_eq ''since'' ''access_token''"
    by code_simp+
  have present: "ci_mem (req_headers full_request) ''Authorization''"
    "ci_mem (query_params full_request) ''access_token''"
    by code_simp+
  have supplied: "given (Some ''{}'')" "given (Some ''S'')"
    by (simp_all add: given_def)
  have before: "named (req_headers full_request) ''Accept'' = [(''Accept'', ''any'')]"
    "named (query_params full_request) ''since'' = [(''since'', Str ''s1'')]"
    "named (req_headers full_request) ''Host'' = [(''Host'', ''proxy'')]"
    "named (req_headers full_request) ''Content-Length'' = [(''content-length'', ''3'')]"
    "req_method full_request = ''PUT''" "req_path full_request = ''/x''"
    "homeserver_url alice_daemon = ''https://hs''"
    by code_simp+
  from forward_request_frame
         [of env_up alice_daemon full_request None "Some ''{}''" "Some ''S''"]
       differ present supplied before
  show ?thesis by simp
qed

section \<open>The decryption coordinator\<close>

lemma decrypt_loop_0:
  "decrypt_loop strict 0 n
     = (if encryption_error (strict n) then ([Strict n], None)
        else ([Strict n], Some (strict n)))"
  by (simp add: encryption_error_def split: sum.splits exn.splits)

lemma decrypt_loop_Suc:
  "decrypt_loop strict (Suc waits) n
     = (if encryption_error (strict n)
        then (Strict n # fst (decrypt_loop strict waits (Suc n)),
              snd (decrypt_loop strict waits (Suc n)))
        else ([Strict n], Some (strict n)))"
  by (simp add: encryption_error_def split: sum.splits exn.splits prod.splits)

text \<open>
  The first strict call that does not raise \<^verbatim>\<open>EncryptionError\<close> ends the loop, if it
  comes before the deadline.
\<close>

lemma decrypt_loop_success:
  "k \<le> waits \<Longrightarrow> (\<forall>j<k. encryption_error (strict (n + j)))
   \<Longrightarrow> \<not> encryption_error (strict (n + k))
   \<Longrightarrow> decrypt_loop strict waits n = (map Strict [n..<Suc (n + k)], Some (strict (n + k)))"
proof (induction waits arbitrary: n k)
  case 0
  then show ?case by (simp add: decrypt_loop_0 del: decrypt_loop.simps)
next
  case (Suc waits)
  show ?case
  proof (cases k)
    case 0
    with Suc.prems show ?thesis by (simp add: decrypt_loop_Suc del: decrypt_loop.simps)
  next
    case (Suc k')
    from Suc.prems(2) Suc have first: "encryption_error (strict n)" by auto
    have le: "k' \<le> waits" using Suc.prems(1) Suc by simp
    have before: "\<forall>j<k'. encryption_error (strict (Suc n + j))"
    proof (intro allI impI)
      fix j assume "j < k'"
      then have "Suc j < k" using Suc by simp
      with Suc.prems(2) have "encryption_error (strict (n + Suc j))" by blast
      then show "encryption_error (strict (Suc n + j))" by simp
    qed
    have last: "\<not> encryption_error (strict (Suc n + k'))" using Suc.prems(3) Suc by simp
    have "decrypt_loop strict waits (Suc n)
            = (map Strict [Suc n..<Suc (Suc n + k')], Some (strict (Suc n + k')))"
      using le before last by (rule Suc.IH)
    with first Suc show ?thesis by (simp add: decrypt_loop_Suc upt_conv_Cons del: decrypt_loop.simps)
  qed
qed

text \<open>If every strict call before the deadline raises it, the timer ends the loop.\<close>

lemma decrypt_loop_timeout:
  "(\<forall>j\<le>waits. encryption_error (strict (n + j)))
   \<Longrightarrow> decrypt_loop strict waits n = (map Strict [n..<Suc (n + waits)], None)"
proof (induction waits arbitrary: n)
  case 0
  then show ?case by (simp add: decrypt_loop_0 del: decrypt_loop.simps)
next
  case (Suc waits)
  from Suc.prems have first: "encryption_error (strict n)" by auto
  have "\<forall>j\<le>waits. encryption_error (strict (Suc n + j))"
  proof (intro allI impI)
    fix j assume "j \<le> waits"
    then have "Suc j \<le> Suc waits" by simp
    with Suc.prems have "encryption_error (strict (n + Suc j))" by blast
    then show "encryption_error (strict (Suc n + j))" by simp
  qed
  then have "decrypt_loop strict waits (Suc n) = (map Strict [Suc n..<Suc (Suc n + waits)], None)"
    by (rule Suc.IH)
  with first show ?case by (simp add: decrypt_loop_Suc upt_conv_Cons del: decrypt_loop.simps)
qed

lemma decrypt_body_success:
  assumes "k \<le> synced_edges e"
    and "\<forall>j<k. encryption_error (decryption_method client sync_mode j body False)"
    and "\<not> encryption_error (decryption_method client sync_mode k body False)"
  shows "decrypt_body e client body sync_mode
           = (map Strict [0..<Suc k], decryption_method client sync_mode k body False)"
proof -
  have "decrypt_loop (\<lambda>n. decryption_method client sync_mode n body False) (synced_edges e) 0
          = (map Strict [0..<Suc (0 + k)],
             Some (decryption_method client sync_mode (0 + k) body False))"
    using assms by (intro decrypt_loop_success) simp_all
  then show ?thesis by (simp add: decrypt_body_def)
qed

lemma decrypt_body_timeout:
  assumes "\<forall>j\<le>synced_edges e. encryption_error (decryption_method client sync_mode j body False)"
  shows "decrypt_body e client body sync_mode
           = (map Strict [0..<Suc (synced_edges e)] @ [Lenient (synced_edges e)],
              decryption_method client sync_mode (synced_edges e) body True)"
proof -
  have "decrypt_loop (\<lambda>n. decryption_method client sync_mode n body False) (synced_edges e) 0
          = (map Strict [0..<Suc (0 + synced_edges e)], None)"
    using assms by (intro decrypt_loop_timeout) simp
  then show ?thesis by (simp add: decrypt_body_def)
qed

lemma decrypt_body_no_shortfall:
  assumes "\<not> encryption_error (decryption_method client sync_mode (synced_edges e) body True)"
  shows "\<not> encryption_error (snd (decrypt_body e client body sync_mode))"
proof (cases "\<forall>j\<le>synced_edges e.
                encryption_error (decryption_method client sync_mode j body False)")
  case True
  then show ?thesis using assms by (simp add: decrypt_body_timeout)
next
  case False
  then obtain j where j: "j \<le> synced_edges e"
      "\<not> encryption_error (decryption_method client sync_mode j body False)"
    by blast
  define k where "k = (LEAST i. \<not> encryption_error (decryption_method client sync_mode i body False))"
  have last: "\<not> encryption_error (decryption_method client sync_mode k body False)"
    unfolding k_def using j(2) by (rule LeastI)
  have "k \<le> j" unfolding k_def using j(2) by (rule Least_le)
  with j(1) have le: "k \<le> synced_edges e" by simp
  have before: "\<forall>i<k. encryption_error (decryption_method client sync_mode i body False)"
  proof (intro allI impI)
    fix i assume "i < k"
    then show "encryption_error (decryption_method client sync_mode i body False)"
      unfolding k_def using not_less_Least by blast
  qed
  from le before last
  have "decrypt_body e client body sync_mode
          = (map Strict [0..<Suc k], decryption_method client sync_mode k body False)"
    by (rule decrypt_body_success)
  with last show ?thesis by simp
qed

text \<open>
  Claim C3. The Decryption Coordinator, given a shadow client, a parsed body and a mode,
  repeatedly attempts strict decryption (failing on any undecryptable event), awaiting
  the shadow client's \<open>synced\<close> edge between attempts, until either a strict attempt
  succeeds (its result is returned) or a total wall-clock budget of
  \<open>decryption_timeout\<close> elapses; on timeout it performs exactly one lenient decryption
  call (ignoring failures, leaving undecryptable events in place) and returns that
  result, so decryption shortfall is never surfaced as an error.

  The mode picks the method. \<open>synced_edges e\<close> is the number of \<open>synced\<close> edges before
  the budget elapses, and the calls are listed in order, each with the number of edges
  awaited before it. If the strict call after \<open>k\<close> edges is the first that does not
  raise \<^verbatim>\<open>EncryptionError\<close>, and \<open>k\<close> edges come in time, the calls are the strict ones
  after \<open>0\<close> to \<open>k\<close> edges and no lenient one, and the result is that of the last. If
  every strict call in time raises it, the calls are the strict ones after \<open>0\<close> to
  \<open>synced_edges e\<close> edges and then one lenient call, whose result is returned. So an
  \<^verbatim>\<open>EncryptionError\<close> leaves \<^verbatim>\<open>decrypt_body\<close> only if the lenient call raises it.
\<close>

theorem decrypt_body_coordinator:
  "decryption_method client True = pc_decrypt_sync_body client
   \<and> decryption_method client False = pc_decrypt_messages_body client
   \<and> (k \<le> synced_edges e
        \<and> (\<forall>j<k. encryption_error (decryption_method client sync_mode j body False))
        \<and> \<not> encryption_error (decryption_method client sync_mode k body False)
      \<longrightarrow> decrypt_body e client body sync_mode
            = (map Strict [0..<Suc k], decryption_method client sync_mode k body False))
   \<and> ((\<forall>j\<le>synced_edges e. encryption_error (decryption_method client sync_mode j body False))
      \<longrightarrow> decrypt_body e client body sync_mode
            = (map Strict [0..<Suc (synced_edges e)] @ [Lenient (synced_edges e)],
               decryption_method client sync_mode (synced_edges e) body True))
   \<and> (\<not> encryption_error (decryption_method client sync_mode (synced_edges e) body True)
      \<longrightarrow> \<not> encryption_error (snd (decrypt_body e client body sync_mode)))"
  apply (intro conjI impI)
      apply (simp add: decryption_method_def)
     apply (simp add: decryption_method_def)
    apply (elim conjE, rule decrypt_body_success, assumption+)
   apply (rule decrypt_body_timeout, assumption)
  apply (rule decrypt_body_no_shortfall, assumption)
  done

theorem decrypt_body_coordinator_witness:
  "synced_edges env_up = 1
   \<and> encryption_error (decryption_method late_key_client True 0 (PStr ''cipher'') False)
   \<and> \<not> encryption_error (decryption_method late_key_client True 1 (PStr ''cipher'') False)
   \<and> decrypt_body env_up late_key_client (PStr ''cipher'') True
       = ([Strict 0, Strict 1], Inr (PStr ''clear''))
   \<and> encryption_error (decryption_method no_key_client False 0 (PStr ''cipher'') False)
   \<and> encryption_error (decryption_method no_key_client False 1 (PStr ''cipher'') False)
   \<and> \<not> encryption_error (decryption_method no_key_client False 1 (PStr ''cipher'') True)
   \<and> decrypt_body env_up no_key_client (PStr ''cipher'') False
       = ([Strict 0, Strict 1, Lenient 1], Inr (PStr ''cipher''))
   \<and> \<not> encryption_error (snd (decrypt_body env_up no_key_client (PStr ''cipher'') False))"
proof -
  have w: "synced_edges env_up = 1"
    by (simp add: env_up_def)
  have late: "encryption_error (decryption_method late_key_client True 0 (PStr ''cipher'') False)"
    "\<not> encryption_error (decryption_method late_key_client True 1 (PStr ''cipher'') False)"
    "decryption_method late_key_client True 1 (PStr ''cipher'') False = Inr (PStr ''clear'')"
    by (simp_all add: encryption_error_def decryption_method_def late_key_client_def)
  have none: "encryption_error (decryption_method no_key_client False 0 (PStr ''cipher'') False)"
    "encryption_error (decryption_method no_key_client False 1 (PStr ''cipher'') False)"
    "\<not> encryption_error (decryption_method no_key_client False 1 (PStr ''cipher'') True)"
    "decryption_method no_key_client False 1 (PStr ''cipher'') True = Inr (PStr ''cipher'')"
    by (simp_all add: encryption_error_def decryption_method_def no_key_client_def)
  have upt: "map Strict [0..<Suc 1] = [Strict 0, Strict 1]"
    by (simp add: upt_conv_Cons)
  have below: "(\<forall>j<1::nat. P j) \<longleftrightarrow> P 0" "(\<forall>j\<le>1::nat. P j) \<longleftrightarrow> P 0 \<and> P 1" for P
    by (auto simp: less_Suc_eq le_Suc_eq)
  from decrypt_body_coordinator
         [where k = 1 and e = env_up and client = late_key_client and sync_mode = True
            and body = "PStr ''cipher''"]
       w late upt below
  have 1: "decrypt_body env_up late_key_client (PStr ''cipher'') True
             = ([Strict 0, Strict 1], Inr (PStr ''clear''))"
    by simp
  from decrypt_body_coordinator
         [where k = 1 and e = env_up and client = no_key_client and sync_mode = False
            and body = "PStr ''cipher''"]
       w none upt below
  have 2: "decrypt_body env_up no_key_client (PStr ''cipher'') False
             = ([Strict 0, Strict 1, Lenient 1], Inr (PStr ''cipher''))"
    and 3: "\<not> encryption_error (snd (decrypt_body env_up no_key_client (PStr ''cipher'') False))"
    by simp_all
  from w late(1,2) none(1-3) 1 2 3 show ?thesis by simp
qed

section \<open>Where the sanitizer and the dispatcher do what is asked of them\<close>

text \<open>
  The sanitizer adds the type to a \<open>types\<close> list that is not empty, and clears it from
  a \<open>not_types\<close> list that names it at most once.
\<close>

lemma key_eq_KStr: "key_eq k' (KStr k) = (k' = KStr k)"
  by (cases k') (simp_all add: key_eq_def)

lemma dict_lookup_dict_set:
  "dict_lookup (dict_set d (KStr k) v) k' = (if k' = k then Some v else dict_lookup d k')"
  by (induction d) (auto simp: dict_lookup_def key_eq_KStr)

lemma dict_lookup_nonempty: "dict_lookup d k = Some v \<Longrightarrow> d \<noteq> []"
  by (auto simp: dict_lookup_def)

lemma add_encrypted_list:
  "xs \<noteq> [] \<Longrightarrow> \<exists>ys. add_encrypted (PList xs) = Inr (PList ys) \<and> PStr encrypted_type \<in> set ys"
  by (simp add: add_encrypted_def)

lemma drop_encrypted_list:
  "count_list xs (PStr encrypted_type) \<le> 1
   \<Longrightarrow> \<exists>ys. drop_encrypted (PList xs) = Inr (PList ys) \<and> PStr encrypted_type \<notin> set ys"
proof (cases "xs = []")
  case True
  then show ?thesis by (simp add: drop_encrypted_def)
next
  case False
  assume c: "count_list xs (PStr encrypted_type) \<le> 1"
  have "x \<notin> set (remove1 x zs)" if "count_list zs x \<le> 1" for x :: pyval and zs
    using that by (induction zs) (auto simp: count_list_0_iff)
  with c False show ?thesis by (simp add: drop_encrypted_def)
qed


lemma timeline_fieldE:
  assumes "timeline_field f k = Some v"
  obtains d r t where "f = PDict d" "dict_lookup d ''room'' = Some (PDict r)"
    "dict_lookup r ''timeline'' = Some (PDict t)" "dict_lookup t k = Some v"
  using assms
  by (auto simp: timeline_field_def split: pyval.splits option.splits)

lemma sanitize_filter_path:
  assumes d: "dict_lookup d ''room'' = Some (PDict r)"
    and r: "dict_lookup r ''timeline'' = Some (PDict t)"
    and g: "sanitize_filter (PDict d) = Inr g"
  shows "\<exists>t'. sanitize_timeline (PDict t) = Inr (PDict t')
           \<and> g = PDict (dict_set d (KStr ''room'')
                       (PDict (dict_set r (KStr ''timeline'') (PDict t'))))"
proof -
  from d have dn: "d \<noteq> []" by (rule dict_lookup_nonempty)
  from r have rn: "r \<noteq> []" by (rule dict_lookup_nonempty)
  show ?thesis
  proof (cases "t = []")
    case True
    then have "sanitize_timeline (PDict t) = Inr (PDict t)"
      by (simp add: sanitize_timeline_def py_get_def dict_lookup_def add_encrypted_def
          drop_encrypted_def)
    moreover have "dict_set d (KStr ''room'') (PDict r) = d" if "dict_lookup d ''room'' = Some (PDict r)" for d r
      using that by (induction d) (auto simp: dict_lookup_def key_eq_KStr split: if_splits)
    moreover have "dict_set r (KStr ''timeline'') (PDict t) = r"
      if "dict_lookup r ''timeline'' = Some (PDict t)" for r t
      using that by (induction r) (auto simp: dict_lookup_def key_eq_KStr split: if_splits)
    ultimately show ?thesis
      using d r g rn True
      by (simp add: sanitize_filter_def sanitize_room_def py_get_def)
  next
    case False
    with d r g rn show ?thesis
      by (auto simp: sanitize_filter_def sanitize_room_def py_get_def sanitize_timeline_def Let_def
          split: sum.splits)
  qed
qed

lemma timeline_field_sanitized:
  "timeline_field (PDict (dict_set d (KStr ''room'')
       (PDict (dict_set r (KStr ''timeline'') (PDict t'))))) k = dict_lookup t' k"
  by (simp add: timeline_field_def dict_lookup_dict_set)

lemma sanitize_filter_types:
  assumes f: "timeline_field f ''types'' = Some (PList xs)" and xs: "xs \<noteq> []"
    and g: "sanitize_filter f = Inr g"
  shows "\<exists>ys. timeline_field g ''types'' = Some (PList ys) \<and> PStr encrypted_type \<in> set ys"
proof -
  from f obtain d r t where p: "f = PDict d" "dict_lookup d ''room'' = Some (PDict r)"
    "dict_lookup r ''timeline'' = Some (PDict t)" "dict_lookup t ''types'' = Some (PList xs)"
    by (rule timeline_fieldE)
  from p g obtain t' where t': "sanitize_timeline (PDict t) = Inr (PDict t')"
    and g': "g = PDict (dict_set d (KStr ''room'')
                       (PDict (dict_set r (KStr ''timeline'') (PDict t'))))"
    using sanitize_filter_path by blast
  from add_encrypted_list [OF xs] obtain ys where
    ys: "add_encrypted (PList xs) = Inr (PList ys)" "PStr encrypted_type \<in> set ys"
    by blast
  from t' p(4) ys(1) xs have "dict_lookup t' ''types'' = Some (PList ys)"
    by (auto simp: sanitize_timeline_def Let_def py_get_def dict_lookup_dict_set
        split: sum.splits if_splits)
  with ys(2) g' show ?thesis
    by (simp add: timeline_field_sanitized)
qed

lemma sanitize_filter_not_types:
  assumes f: "timeline_field f ''not_types'' = Some (PList xs)"
    and xs: "count_list xs (PStr encrypted_type) \<le> 1"
    and g: "sanitize_filter f = Inr g"
  shows "\<exists>ys. timeline_field g ''not_types'' = Some (PList ys)
           \<and> PStr encrypted_type \<notin> set ys"
proof -
  from f obtain d r t where p: "f = PDict d" "dict_lookup d ''room'' = Some (PDict r)"
    "dict_lookup r ''timeline'' = Some (PDict t)" "dict_lookup t ''not_types'' = Some (PList xs)"
    by (rule timeline_fieldE)
  from p g obtain t' where t': "sanitize_timeline (PDict t) = Inr (PDict t')"
    and g': "g = PDict (dict_set d (KStr ''room'')
                       (PDict (dict_set r (KStr ''timeline'') (PDict t'))))"
    using sanitize_filter_path by blast
  from drop_encrypted_list [OF xs] obtain ys where
    ys: "drop_encrypted (PList xs) = Inr (PList ys)" "PStr encrypted_type \<notin> set ys"
    by blast
  have "dict_lookup t' ''not_types'' = Some (PList ys)"
  proof (cases "xs = []")
    case True
    with ys(1) have "ys = []" by (simp add: drop_encrypted_def)
    with t' p(4) True show ?thesis
      by (auto simp: sanitize_timeline_def Let_def py_get_def dict_lookup_dict_set
          split: sum.splits if_splits)
  next
    case False
    with t' p(4) ys(1) show ?thesis
      by (auto simp: sanitize_timeline_def Let_def py_get_def dict_lookup_dict_set
          split: sum.splits if_splits)
  qed
  with ys(2) g' show ?thesis
    by (simp add: timeline_field_sanitized)
qed


text \<open>
  The dispatcher ends without an exception when the user has a shadow client and the SDK
  raises only what the branch catches.
\<close>

lemma receive_message_with_client:
  assumes c: "pan_clients d (pan_user m) = Some client"
    and sas: "pc_accept_sas client m = None" "pc_confirm_sas client m = None"
    and ex: "\<And>path pw x. pc_export_keys client path pw = Some x \<Longrightarrow> \<exists>s. x = OSError s"
    and im: "\<And>path pw x. pc_import_keys client path pw = Some x
               \<Longrightarrow> (\<exists>s. x = OSError s) \<or> (\<exists>s. x = EncryptionError s)"
  shows "\<exists>rs. receive_message e d m = Inr rs"
proof (cases m)
  case (ExportKeysMessage mid p file_path passphrase)
  with c show ?thesis
    using ex [of "abspath e file_path" passphrase]
    by (auto simp: Let_def split: option.splits exn.splits)
next
  case (ImportKeysMessage mid p file_path passphrase)
  with c show ?thesis
    using im [of "abspath e file_path" passphrase]
    by (auto simp: Let_def split: option.splits exn.splits)
qed (insert c sas, auto split: option.splits)

end
